theory Spec2Isabelle
  imports Main "HOL-Library.Word" "HOL-Library.Char_ord" "HOL-Library.List_Lexorder"
begin

section \<open>The HTTP job queue of the worker (http\_job\_queue.go)\<close>

text \<open>
  The queue polls a job board over HTTP. Everything the Go code receives from outside
  (the processor pool, the replies of the job board, the JSON decoders, the clock behind
  the backoff policy, the readiness signal, the cancellation context and the consumer of
  the delivery channel) is an explicit input of the model: library behaviour that the
  repository does not define is a field of \<open>env\<close>, and the mutable surroundings are the
  record \<open>world\<close>, passed through every operation and returned updated. Logging and
  metrics calls have no effect on any value the code computes and are left out.
\<close>

subsection \<open>strconv\<close>

type_synonym uint64 = "64 word"

datatype NumError = ErrSyntax | ErrRange

definition digit_char :: "nat \<Rightarrow> char" where
  "digit_char d = char_of (48 + d)"

function FormatUint10 :: "nat \<Rightarrow> string" where
  "FormatUint10 n =
     (if n < 10 then [digit_char n] else FormatUint10 (n div 10) @ [digit_char (n mod 10)])"
  by pat_completeness auto
termination
  by (relation "measure (\<lambda>n. n)") auto

declare FormatUint10.simps [simp del]

text \<open>\<open>strconv.FormatUint(x, 10)\<close> on a \<open>uint64\<close>.\<close>

definition FormatUint :: "uint64 \<Rightarrow> string" where
  "FormatUint x = FormatUint10 (unat x)"

text \<open>\<open>strconv.Itoa\<close>: a minus sign for a negative value.\<close>

definition Itoa :: "int \<Rightarrow> string" where
  "Itoa i = (if i < 0 then CHR ''-'' # FormatUint10 (nat (- i)) else FormatUint10 (nat i))"

definition is_digit :: "char \<Rightarrow> bool" where
  "is_digit c = (48 \<le> (of_char c :: nat) \<and> (of_char c :: nat) \<le> 57)"

text \<open>
  The digit loop of \<open>strconv.ParseUint(s, 10, 64)\<close>: the first byte that is not a
  decimal digit is a syntax error, the first step that leaves the 64-bit range is a range
  error, whichever comes first in the string.
\<close>

fun parse_digits :: "nat \<Rightarrow> string \<Rightarrow> NumError + nat" where
  "parse_digits n [] = Inr n"
| "parse_digits n (c # cs) =
     (if \<not> is_digit c then Inl ErrSyntax
      else if 2 ^ 64 \<le> n * 10 + ((of_char c :: nat) - 48) then Inl ErrRange
      else parse_digits (n * 10 + ((of_char c :: nat) - 48)) cs)"

definition ParseUint :: "string \<Rightarrow> NumError + uint64" where
  "ParseUint s =
     (if s = [] then Inl ErrSyntax
      else case parse_digits 0 s of Inl e \<Rightarrow> Inl e | Inr n \<Rightarrow> Inr (of_nat n))"

subsection \<open>Data\<close>

datatype httpPollState = httpPollStateSleep | httpPollStateContinue | httpPollStateBreak

text \<open>The two fields of a processor that the queue reads.\<close>

record Processor =
  CurrentStatus :: string
  LastJobID :: uint64

text \<open>
  \<open>ProcessorEacherSizer\<close>: \<open>Each\<close> calls its argument on the processors of \<open>Each_procs\<close>
  in this order, \<open>Size\<close> returns \<open>Size_result\<close>. The interface does not relate the two.
\<close>

record ProcessorEacherSizer =
  Each_procs :: "Processor list"
  Size_result :: int

text \<open>
  \<open>url.URL\<close>: the query is kept as the key/value pairs that \<open>u.Query()\<close> parses from
  \<open>RawQuery\<close>; \<open>Values.Encode\<close> writes them sorted by key.
\<close>

record URL =
  Scheme :: string
  Host :: string
  Path :: string
  RawQuery :: "(string \<times> string) list"

definition Encode :: "(string \<times> string) list \<Rightarrow> (string \<times> string) list" where
  "Encode v = sort_key fst v"

type_synonym pool_ref = nat
type_synonym chan = nat
type_synonym gocontext = nat
type_synonym ready_chan = nat
type_synonym Duration = int

definition Second :: Duration where
  "Second = 1000000000"

definition Minute :: Duration where
  "Minute = 60 * Second"

text \<open>
  \<open>HTTPJobQueue\<close>. \<open>processors\<close> is a reference to the pool, whose state lives in the
  world; \<open>buildJobChan\<close> is \<open>None\<close> for the nil channel. The mutex field only
  serialises \<open>Jobs\<close>, which the model runs as one step. \<open>jobBoardURL\<close> is the URL
  the pointer refers to, taken to be non-nil.
\<close>

record HTTPJobQueue =
  processors :: pool_ref
  jobBoardURL :: URL
  site :: string
  providerName :: string
  queue :: string
  workerID :: string
  buildJobChan :: "chan option"
  pollInterval :: Duration
  DefaultLanguage :: string
  DefaultDist :: string
  DefaultGroup :: string
  DefaultOS :: string

datatype error =
    httpJobQueueNoJobsErr
  | MarshalRequestPayloadFailed
  | CreateJobsRequestFailed
  | MakeJobsRequestFailed
  | DecodeJobsResponseFailed
  | ParseJobIDFailed NumError
  | CreateJobRequestFailed
  | TransportFailed
  | UnexpectedStatus nat
  | MakeJobRequestFailed error
  | ReadBodyFailed
  | UnmarshalPayloadFailed
  | UnmarshalStartAttrsFailed
  | SimplejsonFailed

text \<open>What a call does: return a value, return an error, or panic on a nil pointer.\<close>

datatype 'a result = Ok 'a | Err error | Panic

subsection \<open>HTTP\<close>

datatype body = Unreadable | Bytes string

record Response =
  StatusCode :: nat
  Body :: body

text \<open>
  The three outcomes of \<open>Client.Do\<close>: an error and no response, a response and no
  error, or both (only when following a redirect was refused).
\<close>

datatype http_reply = Failed | Responded Response | RedirectRefused Response

record Request =
  Method :: string
  Url :: URL
  Header :: "(string \<times> string) list"
  Payload :: "string list option"
  Ctx :: gocontext

text \<open>
  \<open>Payload\<close> is the request body: \<open>Some jobs\<close> for the JSON encoding of
  \<open>httpFetchJobsRequest{Jobs: jobs}\<close>, \<open>None\<close> for no body.
\<close>

subsection \<open>Job descriptors\<close>

text \<open>
  Modelled from the spec: \<open>backend.StartAttributes\<close> is declared outside the given
  sources; the fields are the five that the spec names (language, distro, group, OS,
  VM type). A field left unset holds the empty string.
\<close>

record StartAttributes =
  Language :: string
  Dist :: string
  Group :: string
  OS :: string
  VMType :: string

text \<open>
  Modelled from the spec: \<open>SetDefaults\<close> is defined outside the given sources. It applies
  each default to the field left unset and never overrides a value that is present.
\<close>

definition SetDefaults ::
  "string \<Rightarrow> string \<Rightarrow> string \<Rightarrow> string \<Rightarrow> string \<Rightarrow> StartAttributes \<Rightarrow> StartAttributes" where
  "SetDefaults lang dist grp os vmType sa =
     \<lparr> Language = (if Language sa = [] then lang else Language sa),
       Dist = (if Dist sa = [] then dist else Dist sa),
       Group = (if Group sa = [] then grp else Group sa),
       OS = (if OS sa = [] then os else OS sa),
       VMType = (if VMType sa = [] then vmType else VMType sa) \<rparr>"

text \<open>
  Modelled from the spec: the payload types are declared outside the given sources.
  \<open>JobPayload\<close> carries the VM type hint; of its other fields nothing is read here.
  A pointer field is an option, \<open>None\<close> for nil (JSON \<open>null\<close> decodes to nil).
\<close>

record JobPayload =
  payload_VMType :: string

record httpJobPayload =
  payload_Data :: "JobPayload option"

record jobPayloadStartAttrs =
  Config :: "StartAttributes option"

record httpJobPayloadStartAttrs =
  attrs_Data :: "jobPayloadStartAttrs option"

text \<open>A handle on an untyped JSON tree of simplejson.\<close>

datatype Json = Json nat

record httpJob =
  payload :: httpJobPayload
  rawPayload :: Json
  startAttributes :: StartAttributes
  job_jobBoardURL :: URL
  job_site :: string
  job_workerID :: string

text \<open>\<open>backoff.ExponentialBackOff\<close>: the intervals that the code sets or inherits.\<close>

record ExponentialBackOff =
  InitialInterval :: Duration
  MaxInterval :: Duration
  MaxElapsedTime :: Duration

subsection \<open>The surroundings\<close>

text \<open>
  Library behaviour that the repository does not define:
  \<^item> \<open>Marshal_fails\<close>, \<open>NewRequest_fails\<close>: whether \<open>json.Marshal\<close> and
    \<open>http.NewRequest\<close> return an error;
  \<^item> \<open>Decode_jobs\<close>: \<open>json.Decoder.Decode\<close> into the pointer to
    \<open>httpFetchJobsResponse\<close>: \<open>None\<close> for an error, \<open>Some None\<close> when the pointer is nil
    afterwards, \<open>Some (Some jobs)\<close> for the decoded list;
  \<^item> \<open>Unmarshal_payload\<close>, \<open>Unmarshal_startAttrs\<close>: \<open>json.Unmarshal\<close> into the
    pre-filled structures, \<open>None\<close> for an error; the start attributes are decoded through
    a pointer to the pointer, which may be nil afterwards;
  \<^item> \<open>NewJson\<close> and \<open>Get_data\<close>: simplejson's parser and \<open>Get("data")\<close>;
  \<^item> \<open>NextBackOffs\<close>: the waits that \<open>NextBackOff\<close> returns before it returns \<open>Stop\<close>;
    they depend on the clock and on random jitter;
  \<^item> \<open>VMTypeDefault\<close>: a constant of the package declared outside the given sources.
\<close>

record env =
  Marshal_fails :: "string list \<Rightarrow> bool"
  NewRequest_fails :: "string \<Rightarrow> URL \<Rightarrow> bool"
  Decode_jobs :: "string \<Rightarrow> string list option option"
  Unmarshal_payload :: "string \<Rightarrow> httpJobPayload option"
  Unmarshal_startAttrs :: "string \<Rightarrow> httpJobPayloadStartAttrs option option"
  NewJson :: "string \<Rightarrow> Json option"
  Get_data :: "Json \<Rightarrow> Json"
  NextBackOffs :: "ExponentialBackOff \<Rightarrow> Duration list"
  VMTypeDefault :: string

datatype event = Requested Request | BodyClosed | Slept Duration | Sent chan "httpJob option"

text \<open>
  The mutable surroundings:
  \<^item> \<open>pools\<close>: the state of the processor pool behind each reference;
  \<^item> \<open>replies\<close>: what the next calls of \<open>Client.Do\<close> return, in order; when the list is
    used up the transport fails;
  \<^item> \<open>trace\<close>: the requests made, bodies closed, waits and channel sends so far;
  \<^item> \<open>ready_fires\<close>: whether the readiness signal arrives before the poll interval ends;
  \<^item> \<open>ctx_done\<close>: whether the context is canceled when the code looks at it;
  \<^item> \<open>receivers\<close>: how many values a consumer still takes from each channel;
  \<^item> \<open>next_chan\<close>: the next channel that \<open>make\<close> returns;
  \<^item> \<open>loops\<close>: the poll loops started so far, each with its context, readiness channel
    and delivery channel.
\<close>

record world =
  pools :: "pool_ref \<Rightarrow> ProcessorEacherSizer"
  replies :: "http_reply list"
  trace :: "event list"
  ready_fires :: "ready_chan \<Rightarrow> bool"
  ctx_done :: "gocontext \<Rightarrow> bool"
  receivers :: "chan \<Rightarrow> nat"
  next_chan :: chan
  loops :: "(gocontext \<times> ready_chan \<times> chan) list"

definition Do :: "Request \<Rightarrow> world \<Rightarrow> http_reply \<times> world" where
  "Do req w =
     (case replies w of
        [] \<Rightarrow> (Failed, w\<lparr>trace := trace w @ [Requested req]\<rparr>)
      | r # rs \<Rightarrow> (r, w\<lparr>replies := rs, trace := trace w @ [Requested req]\<rparr>))"

definition Close :: "world \<Rightarrow> world" where
  "Close w = w\<lparr>trace := trace w @ [BodyClosed]\<rparr>"

subsection \<open>fetchJobID\<close>

text \<open>The callback given to \<open>Each\<close>, run over the processors in order.\<close>

definition fetchRequestPayload :: "Processor list \<Rightarrow> string list" where
  "fetchRequestPayload ps =
     foldl (\<lambda>jobs p. if CurrentStatus p = ''processing''
                      then jobs @ [FormatUint (LastJobID p)] else jobs) [] ps"

definition jobsRequest :: "HTTPJobQueue \<Rightarrow> int \<Rightarrow> gocontext \<Rightarrow> string list \<Rightarrow> Request" where
  "jobsRequest q capacity ctx jobs =
     \<lparr> Method = ''POST'',
       Url = (jobBoardURL q)
         \<lparr> Path := ''/jobs'',
           RawQuery := Encode (RawQuery (jobBoardURL q) @
             [(''count'', ''1''), (''capacity'', Itoa capacity), (''queue'', queue q)]) \<rparr>,
       Header = [(''Content-Type'', ''application/json''), (''Travis-Site'', site q),
                 (''From'', workerID q)],
       Payload = Some jobs,
       Ctx = ctx \<rparr>"

text \<open>The inner loop: it runs over every earlier id and remembers a match.\<close>

definition alreadyRunning :: "string \<Rightarrow> string list \<Rightarrow> bool" where
  "alreadyRunning strID prev =
     foldl (\<lambda>found prevStrID. if strID = prevStrID then True else found) False prev"

text \<open>The outer loop, with \<open>jobIDs\<close> as its accumulator.\<close>

fun filterJobIDs :: "string list \<Rightarrow> string list \<Rightarrow> uint64 list \<Rightarrow> NumError + uint64 list" where
  "filterJobIDs [] prev jobIDs = Inr jobIDs"
| "filterJobIDs (strID # rest) prev jobIDs =
     (if alreadyRunning strID prev then filterJobIDs rest prev jobIDs
      else case ParseUint strID of
             Inl e \<Rightarrow> Inl e
           | Inr i \<Rightarrow> filterJobIDs rest prev (jobIDs @ [i]))"

definition decodeJobs :: "env \<Rightarrow> body \<Rightarrow> string list option option" where
  "decodeJobs E b = (case b of Unreadable \<Rightarrow> None | Bytes s \<Rightarrow> Decode_jobs E s)"

definition fetchJobID :: "env \<Rightarrow> HTTPJobQueue \<Rightarrow> gocontext \<Rightarrow> world \<Rightarrow> uint64 result \<times> world" where
  "fetchJobID E q ctx w =
     (let jobs = fetchRequestPayload (Each_procs (pools w (processors q)));
          req = jobsRequest q (Size_result (pools w (processors q))) ctx jobs
      in if Marshal_fails E jobs then (Err MarshalRequestPayloadFailed, w)
         else if NewRequest_fails E ''POST'' (Url req) then (Err CreateJobsRequestFailed, w)
         else case Do req w of
                (Failed, w1) \<Rightarrow> (Err MakeJobsRequestFailed, w1)
              | (RedirectRefused resp, w1) \<Rightarrow> (Err MakeJobsRequestFailed, w1)
              | (Responded resp, w1) \<Rightarrow>
                  (case decodeJobs E (Body resp) of
                     None \<Rightarrow> (Err DecodeJobsResponseFailed, Close w1)
                   | Some None \<Rightarrow> (Panic, Close w1)
                   | Some (Some respJobs) \<Rightarrow>
                       (case filterJobIDs respJobs jobs [] of
                          Inl e \<Rightarrow> (Err (ParseJobIDFailed e), Close w1)
                        | Inr [] \<Rightarrow> (Err httpJobQueueNoJobsErr, Close w1)
                        | Inr (i # rest) \<Rightarrow> (Ok i, Close w1))))"

subsection \<open>fetchJob\<close>

definition jobRequest :: "HTTPJobQueue \<Rightarrow> gocontext \<Rightarrow> uint64 \<Rightarrow> Request" where
  "jobRequest q ctx jobID =
     \<lparr> Method = ''GET'',
       Url = (jobBoardURL q) \<lparr> Path := ''/jobs/'' @ FormatUint jobID \<rparr>,
       Header = [(''Travis-Infrastructure'', providerName q), (''Travis-Site'', site q),
                 (''From'', workerID q)],
       Payload = None,
       Ctx = ctx \<rparr>"

text \<open>The defaults of the backoff library, and the policy that \<open>fetchJob\<close> builds.\<close>

definition NewExponentialBackOff :: ExponentialBackOff where
  "NewExponentialBackOff =
     \<lparr> InitialInterval = Second div 2, MaxInterval = 60 * Second, MaxElapsedTime = 15 * Minute \<rparr>"

definition jobBackOff :: ExponentialBackOff where
  "jobBackOff = NewExponentialBackOff \<lparr> MaxInterval := 10 * Second, MaxElapsedTime := 1 * Minute \<rparr>"

text \<open>
  The function literal given to \<open>backoff.Retry\<close>. It assigns the variable \<open>resp\<close> of
  \<open>fetchJob\<close> and returns an error; the model returns both.
\<close>

definition jobOperation :: "Request \<Rightarrow> world \<Rightarrow> (Response option \<times> error option) \<times> world" where
  "jobOperation req w =
     (case Do req w of
        (Failed, w1) \<Rightarrow> ((None, Some TransportFailed), w1)
      | (Responded resp, w1) \<Rightarrow>
          (if StatusCode resp \<noteq> 200
           then ((Some resp, Some (UnexpectedStatus (StatusCode resp))), Close w1)
           else ((Some resp, None), w1))
      | (RedirectRefused resp, w1) \<Rightarrow>
          (if StatusCode resp \<noteq> 200
           then ((Some resp, Some (UnexpectedStatus (StatusCode resp))), Close w1)
           else ((Some resp, Some TransportFailed), w1)))"

text \<open>
  \<open>backoff.Retry\<close>: run the operation; on an error ask the policy for the next wait, give
  up with that error when the policy says \<open>Stop\<close>, otherwise sleep and run it again. The
  second argument lists the waits that the policy hands out before \<open>Stop\<close>.
\<close>

fun Retry ::
  "(world \<Rightarrow> (Response option \<times> error option) \<times> world) \<Rightarrow> Duration list \<Rightarrow> world
     \<Rightarrow> (Response option \<times> error option) \<times> world" where
  "Retry operation [] w = operation w"
| "Retry operation (next # later) w =
     (case operation w of
        ((resp, None), w1) \<Rightarrow> ((resp, None), w1)
      | ((resp, Some err), w1) \<Rightarrow> Retry operation later (w1\<lparr>trace := trace w1 @ [Slept next]\<rparr>))"

text \<open>
  Lines 319 to 321: the parsed start attributes, their VM type overwritten with the one
  of the payload, then the defaults. \<open>None\<close> when a pointer on the way is nil.
\<close>

definition finalStartAttributes ::
  "env \<Rightarrow> HTTPJobQueue \<Rightarrow> httpJobPayload \<Rightarrow> httpJobPayloadStartAttrs option \<Rightarrow> StartAttributes option" where
  "finalStartAttributes E q pl startAttrs =
     (case startAttrs of
        None \<Rightarrow> None
      | Some sa \<Rightarrow>
          (case attrs_Data sa of
             None \<Rightarrow> None
           | Some d \<Rightarrow>
               (case Config d of
                  None \<Rightarrow> None
                | Some config \<Rightarrow>
                    (case payload_Data pl of
                       None \<Rightarrow> None
                     | Some dat \<Rightarrow>
                         Some (SetDefaults (DefaultLanguage q) (DefaultDist q) (DefaultGroup q)
                                 (DefaultOS q) (VMTypeDefault E)
                                 (config \<lparr> VMType := payload_VMType dat \<rparr>))))))"

text \<open>Lines 298 to 323: reading the body of the response and parsing it three ways.\<close>

definition parseJob :: "env \<Rightarrow> HTTPJobQueue \<Rightarrow> body \<Rightarrow> httpJob result" where
  "parseJob E q b =
     (case b of
        Unreadable \<Rightarrow> Err ReadBodyFailed
      | Bytes bytes \<Rightarrow>
          (case Unmarshal_payload E bytes of
             None \<Rightarrow> Err UnmarshalPayloadFailed
           | Some pl \<Rightarrow>
               (case Unmarshal_startAttrs E bytes of
                  None \<Rightarrow> Err UnmarshalStartAttrsFailed
                | Some startAttrs \<Rightarrow>
                    (case NewJson E bytes of
                       None \<Rightarrow> Err SimplejsonFailed
                     | Some raw \<Rightarrow>
                         (case finalStartAttributes E q pl startAttrs of
                            None \<Rightarrow> Panic
                          | Some sa \<Rightarrow>
                              Ok \<lparr> payload = pl, rawPayload = Get_data E raw,
                                   startAttributes = sa, job_jobBoardURL = jobBoardURL q,
                                   job_site = site q, job_workerID = workerID q \<rparr>)))))"

definition fetchJob ::
  "env \<Rightarrow> HTTPJobQueue \<Rightarrow> gocontext \<Rightarrow> uint64 \<Rightarrow> world \<Rightarrow> httpJob result \<times> world" where
  "fetchJob E q ctx jobID w =
     (if NewRequest_fails E ''GET'' (Url (jobRequest q ctx jobID))
      then (Err CreateJobRequestFailed, w)
      else case Retry (jobOperation (jobRequest q ctx jobID)) (NextBackOffs E jobBackOff) w of
             ((resp, Some err), w1) \<Rightarrow> (Err (MakeJobRequestFailed err), w1)
           | ((None, None), w1) \<Rightarrow> (Panic, w1)
           | ((Some resp, None), w1) \<Rightarrow> (parseJob E q (Body resp), Close w1))"

subsection \<open>The poll attempt and the queue's public operations\<close>

text \<open>
  A send on the unbuffered channel completes when a consumer takes the value; with no
  consumer it blocks for good (\<open>None\<close>).
\<close>

definition send :: "chan \<Rightarrow> httpJob option \<Rightarrow> world \<Rightarrow> world option" where
  "send c v w =
     (if receivers w c = 0 then None
      else Some (w\<lparr>trace := trace w @ [Sent c v],
                   receivers := (receivers w)(c := receivers w c - 1)\<rparr>))"

datatype 'a outcome = Returns 'a | Blocks | Panics

definition pollForJobs ::
  "env \<Rightarrow> HTTPJobQueue \<Rightarrow> gocontext \<Rightarrow> ready_chan \<Rightarrow> chan \<Rightarrow> world
     \<Rightarrow> (httpPollState \<times> HTTPJobQueue \<times> world) outcome" where
  "pollForJobs E q ctx ready c w =
     (if ready_fires w ready then
        (case fetchJobID E q ctx w of
           (Panic, w1) \<Rightarrow> Panics
         | (Err err, w1) \<Rightarrow> Returns (httpPollStateSleep, q, w1)
         | (Ok jobID, w1) \<Rightarrow>
             (case fetchJob E q ctx jobID w1 of
                (Panic, w2) \<Rightarrow> Panics
              | (Err err, w2) \<Rightarrow>
                  (case send c None w2 of
                     None \<Rightarrow> Blocks
                   | Some w3 \<Rightarrow> Returns (httpPollStateSleep, q, w3))
              | (Ok buildJob, w2) \<Rightarrow>
                  (case send c (Some buildJob) w2 of
                     None \<Rightarrow> Blocks
                   | Some w3 \<Rightarrow>
                       (if ctx_done w3 ctx
                        then Returns (httpPollStateBreak, q\<lparr>buildJobChan := None\<rparr>, w3)
                        else Returns (httpPollStateSleep, q, w3)))))
      else Returns (httpPollStateContinue, q, w))"

text \<open>
  \<open>Jobs\<close>, run under the mutex as one step. The goroutine it starts is entered in
  \<open>loops\<close>; it calls \<open>pollForJobs\<close> with these arguments until the result is
  \<open>httpPollStateBreak\<close>.
\<close>

definition Jobs ::
  "HTTPJobQueue \<Rightarrow> gocontext \<Rightarrow> ready_chan \<Rightarrow> world
     \<Rightarrow> (chan \<times> error option) \<times> HTTPJobQueue \<times> world" where
  "Jobs q ctx ready w =
     (case buildJobChan q of
        Some c \<Rightarrow> ((c, None), q, w)
      | None \<Rightarrow>
          ((next_chan w, None),
           q\<lparr>buildJobChan := Some (next_chan w)\<rparr>,
           w\<lparr>next_chan := Suc (next_chan w),
             loops := loops w @ [(ctx, ready, next_chan w)]\<rparr>))"

definition Name :: "HTTPJobQueue \<Rightarrow> string" where
  "Name q = ''http''"

definition Cleanup :: "HTTPJobQueue \<Rightarrow> error option" where
  "Cleanup q = None"

text \<open>
  The operations of a queue, and the queue that each leaves behind when it returns. Only
  \<open>Jobs\<close> and \<open>pollForJobs\<close> assign to a field of the receiver.
\<close>

datatype operation =
    OpJobs gocontext ready_chan
  | OpPollForJobs gocontext ready_chan chan
  | OpFetchJobID gocontext
  | OpFetchJob gocontext uint64
  | OpName
  | OpCleanup

fun queueAfter :: "env \<Rightarrow> operation \<Rightarrow> HTTPJobQueue \<Rightarrow> world \<Rightarrow> HTTPJobQueue outcome" where
  "queueAfter E (OpJobs ctx ready) q w = Returns (fst (snd (Jobs q ctx ready w)))"
| "queueAfter E (OpPollForJobs ctx ready c) q w =
     (case pollForJobs E q ctx ready c w of
        Returns (st, q1, w1) \<Rightarrow> Returns q1
      | Blocks \<Rightarrow> Blocks
      | Panics \<Rightarrow> Panics)"
| "queueAfter E (OpFetchJobID ctx) q w =
     (case fst (fetchJobID E q ctx w) of Panic \<Rightarrow> Panics | Err err \<Rightarrow> Returns q | Ok i \<Rightarrow> Returns q)"
| "queueAfter E (OpFetchJob ctx jobID) q w =
     (case fst (fetchJob E q ctx jobID w) of Panic \<Rightarrow> Panics | Err err \<Rightarrow> Returns q | Ok j \<Rightarrow> Returns q)"
| "queueAfter E OpName q w = Returns q"
| "queueAfter E OpCleanup q w = Returns q"

subsection \<open>Wording of the specification\<close>

text \<open>
  The retry predicate of the specification: a transport error or a status other than 200.
\<close>

fun retryable :: "http_reply \<Rightarrow> bool" where
  "retryable Failed = True"
| "retryable (Responded resp) = (StatusCode resp \<noteq> 200)"
| "retryable (RedirectRefused resp) = True"

text \<open>
  What a failed attempt leaves in the trace: the request, the closing of the body when a
  response with a status other than 200 came back, and the wait before the next attempt.
\<close>

fun closedBody :: "http_reply \<Rightarrow> event list" where
  "closedBody Failed = []"
| "closedBody (Responded resp) = (if StatusCode resp \<noteq> 200 then [BodyClosed] else [])"
| "closedBody (RedirectRefused resp) = (if StatusCode resp \<noteq> 200 then [BodyClosed] else [])"

fun retryEvents :: "Request \<Rightarrow> http_reply list \<Rightarrow> Duration list \<Rightarrow> event list" where
  "retryEvents req (r # rs) (d # ds) = Requested req # closedBody r @ Slept d # retryEvents req rs ds"
| "retryEvents req rs ds = []"

text \<open>
  The candidates of a response that are not in flight, in response order: the wording of
  the specification, against which the loops of \<open>fetchJobID\<close> are compared.
\<close>

definition notRunning :: "string list \<Rightarrow> string list \<Rightarrow> string list" where
  "notRunning prev resp = filter (\<lambda>strID. strID \<notin> set prev) resp"

subsection \<open>Reading traces and results\<close>

text \<open>The values sent on a channel, in order.\<close>

fun sends :: "chan \<Rightarrow> event list \<Rightarrow> httpJob option list" where
  "sends c [] = []"
| "sends c (Sent c' v # es) = (if c' = c then v # sends c es else sends c es)"
| "sends c (e # es) = sends c es"

text \<open>Projections of results, for stating what a call returned.\<close>

definition returnedJob :: "httpJob result \<Rightarrow> httpJob option" where
  "returnedJob r = (case r of Ok j \<Rightarrow> Some j | Err err \<Rightarrow> None | Panic \<Rightarrow> None)"

definition finalVMType :: "httpJob result \<Rightarrow> string option" where
  "finalVMType r = map_option (\<lambda>j. VMType (startAttributes j)) (returnedJob r)"

definition payloadVMType :: "httpJob result \<Rightarrow> string option" where
  "payloadVMType r =
     (case returnedJob r of
        None \<Rightarrow> None
      | Some j \<Rightarrow> map_option payload_VMType (payload_Data (payload j)))"

definition pollState :: "(httpPollState \<times> HTTPJobQueue \<times> world) outcome \<Rightarrow> httpPollState option" where
  "pollState r = (case r of Returns (st, q, w) \<Rightarrow> Some st | Blocks \<Rightarrow> None | Panics \<Rightarrow> None)"

definition pollQueue :: "(httpPollState \<times> HTTPJobQueue \<times> world) outcome \<Rightarrow> HTTPJobQueue option" where
  "pollQueue r = (case r of Returns (st, q, w) \<Rightarrow> Some q | Blocks \<Rightarrow> None | Panics \<Rightarrow> None)"

definition pollWorld :: "(httpPollState \<times> HTTPJobQueue \<times> world) outcome \<Rightarrow> world option" where
  "pollWorld r = (case r of Returns (st, q, w) \<Rightarrow> Some w | Blocks \<Rightarrow> None | Panics \<Rightarrow> None)"

text \<open>The requests of a trace, in order.\<close>

fun requests :: "event list \<Rightarrow> Request list" where
  "requests [] = []"
| "requests (Requested r # es) = r # requests es"
| "requests (e # es) = requests es"

subsection \<open>Construction\<close>

definition NewHTTPJobQueue ::
  "pool_ref \<Rightarrow> URL \<Rightarrow> string \<Rightarrow> string \<Rightarrow> string \<Rightarrow> string \<Rightarrow> HTTPJobQueue" where
  "NewHTTPJobQueue procs url site' providerName' queue' workerID' =
     \<lparr> processors = procs, jobBoardURL = url, site = site', providerName = providerName',
       queue = queue', workerID = workerID', buildJobChan = None, pollInterval = Second,
       DefaultLanguage = [], DefaultDist = [], DefaultGroup = [], DefaultOS = [] \<rparr>"

subsection \<open>A concrete queue, pool and job board\<close>

text \<open>
  A queue as \<open>NewHTTPJobQueue\<close> builds it, a pool of two processors of which one is
  processing job 42, and decoders given by tables over a few response bodies.
\<close>

definition example_queue :: HTTPJobQueue where
  "example_queue =
     NewHTTPJobQueue 0 \<lparr> Scheme = ''https'', Host = ''jobs.example.org'', Path = [], RawQuery = [] \<rparr>
       ''site-a'' ''gce'' ''builds.gce'' ''worker-1''"

definition example_pool :: ProcessorEacherSizer where
  "example_pool =
     \<lparr> Each_procs = [\<lparr> CurrentStatus = ''waiting'', LastJobID = 17 \<rparr>,
                      \<lparr> CurrentStatus = ''processing'', LastJobID = 42 \<rparr>],
       Size_result = 2 \<rparr>"

definition example_attrs :: "string \<Rightarrow> string \<Rightarrow> httpJobPayloadStartAttrs option" where
  "example_attrs lang vm =
     Some \<lparr> attrs_Data = Some \<lparr> Config =
       Some \<lparr> Language = lang, Dist = [], Group = [], OS = ''linux'', VMType = vm \<rparr> \<rparr> \<rparr>"

definition example_env :: env where
  "example_env =
     \<lparr> Marshal_fails = (\<lambda>jobs. False),
       NewRequest_fails = (\<lambda>m u. False),
       Decode_jobs = map_of [(''jobs-42-43'', Some [''42'', ''43'']), (''jobs-42'', Some [''42'']),
                             (''jobs-042'', Some [''042'']), (''jobs-43-x'', Some [''43'', ''x'']),
                             (''null'', None)],
       Unmarshal_payload =
         map_of [(''job-premium'', \<lparr> payload_Data = Some \<lparr> payload_VMType = ''premium'' \<rparr> \<rparr>),
                 (''job-plain'', \<lparr> payload_Data = Some \<lparr> payload_VMType = [] \<rparr> \<rparr>),
                 (''job-attrs-broken'', \<lparr> payload_Data = Some \<lparr> payload_VMType = [] \<rparr> \<rparr>),
                 (''job-data-null'', \<lparr> payload_Data = None \<rparr>)],
       Unmarshal_startAttrs =
         map_of [(''job-premium'', example_attrs ''ruby'' ''default''),
                 (''job-plain'', example_attrs [] ''premium''),
                 (''job-data-null'', Some \<lparr> attrs_Data = None \<rparr>)],
       NewJson = map_of [(''job-premium'', Json 0), (''job-plain'', Json 1),
                         (''job-data-null'', Json 2)],
       Get_data = (\<lambda>j. j),
       NextBackOffs = (\<lambda>bo. [500000000, 750000000]),
       VMTypeDefault = ''default'' \<rparr>"

definition example_world :: "http_reply list \<Rightarrow> world" where
  "example_world rs =
     \<lparr> pools = (\<lambda>r. example_pool), replies = rs, trace = [],
       ready_fires = (\<lambda>r. True), ctx_done = (\<lambda>c. False), receivers = (\<lambda>c. 1),
       next_chan = 0, loops = [] \<rparr>"

text \<open>The same surroundings with every context canceled.\<close>

definition canceled_world :: "http_reply list \<Rightarrow> world" where
  "canceled_world rs = (example_world rs) \<lparr> ctx_done := (\<lambda>c. True) \<rparr>"

definition ok_reply :: "string \<Rightarrow> http_reply" where
  "ok_reply s = Responded \<lparr> StatusCode = 200, Body = Bytes s \<rparr>"

definition status_reply :: "nat \<Rightarrow> http_reply" where
  "status_reply n = Responded \<lparr> StatusCode = n, Body = Bytes ''error'' \<rparr>"

section \<open>Properties\<close>

subsection \<open>The loops of fetchJobID\<close>

lemma alreadyRunning_foldl:
  "foldl (\<lambda>found prevStrID. if strID = prevStrID then True else found) b prev
     = (b \<or> strID \<in> set prev)"
  by (induction prev arbitrary: b) auto

lemma alreadyRunning_iff: "alreadyRunning strID prev = (strID \<in> set prev)"
  by (simp add: alreadyRunning_def alreadyRunning_foldl)

lemma fetchRequestPayload_foldl:
  "foldl (\<lambda>jobs p. if CurrentStatus p = ''processing''
                      then jobs @ [FormatUint (LastJobID p)] else jobs) acc ps
     = acc @ map (\<lambda>p. FormatUint (LastJobID p)) (filter (\<lambda>p. CurrentStatus p = ''processing'') ps)"
  by (induction ps arbitrary: acc) auto

lemma fetchRequestPayload_eq:
  "fetchRequestPayload ps
     = map (\<lambda>p. FormatUint (LastJobID p)) (filter (\<lambda>p. CurrentStatus p = ''processing'') ps)"
  by (simp add: fetchRequestPayload_def fetchRequestPayload_foldl)

lemma filterJobIDs_all_parse:
  "\<forall>s \<in> set (notRunning prev resp). \<exists>i. ParseUint s = Inr i \<Longrightarrow>
   filterJobIDs resp prev acc = Inr (acc @ map (\<lambda>s. projr (ParseUint s)) (notRunning prev resp))"
  by (induction resp arbitrary: acc) (auto simp: notRunning_def alreadyRunning_iff)

lemma filterJobIDs_some_fails:
  "\<exists>s \<in> set (notRunning prev resp). \<exists>e. ParseUint s = Inl e \<Longrightarrow>
   \<exists>e. filterJobIDs resp prev acc = Inl e"
proof (induction resp arbitrary: acc)
  case Nil
  then show ?case by (simp add: notRunning_def)
next
  case (Cons a resp)
  show ?case
  proof (cases "a \<in> set prev")
    case True
    with Cons.prems have "\<exists>s \<in> set (notRunning prev resp). \<exists>e. ParseUint s = Inl e"
      by (simp add: notRunning_def)
    from Cons.IH [OF this] True show ?thesis
      by (simp add: alreadyRunning_iff)
  next
    case False
    show ?thesis
    proof (cases "ParseUint a")
      case (Inl e)
      with False show ?thesis by (simp add: alreadyRunning_iff)
    next
      case (Inr i)
      with Cons.prems False have "\<exists>s \<in> set (notRunning prev resp). \<exists>e. ParseUint s = Inl e"
        by (auto simp: notRunning_def)
      from Cons.IH [OF this] False Inr show ?thesis
        by (simp add: alreadyRunning_iff)
    qed
  qed
qed



lemma requests_append: "requests (es @ fs) = requests es @ requests fs"
  by (induction es rule: requests.induct) auto

lemma FormatUint_42: "FormatUint 42 = ''42''"
  by code_simp

lemma example_inflight: "fetchRequestPayload (Each_procs example_pool) = [''42'']"
  by (simp add: fetchRequestPayload_def example_pool_def FormatUint_42)

lemma fetchJobID_decoded:
  assumes "\<not> Marshal_fails E (fetchRequestPayload (Each_procs (pools w (processors q))))"
    and "\<not> NewRequest_fails E ''POST''
           (Url (jobsRequest q (Size_result (pools w (processors q))) ctx
                  (fetchRequestPayload (Each_procs (pools w (processors q))))))"
    and "replies w = Responded resp # rs"
    and "decodeJobs E (Body resp) = Some (Some respJobs)"
  shows "fst (fetchJobID E q ctx w) =
           (case filterJobIDs respJobs (fetchRequestPayload (Each_procs (pools w (processors q)))) [] of
              Inl e \<Rightarrow> Err (ParseJobIDFailed e)
            | Inr [] \<Rightarrow> Err httpJobQueueNoJobsErr
            | Inr (i # rest) \<Rightarrow> Ok i)"
  using assms by (simp add: fetchJobID_def Let_def Do_def split: sum.splits list.splits)

text \<open>
  Claim C1, as amended. When the job board answers and the answer decodes to a list of
  candidates, \<open>fetchJobID\<close> drops every candidate that is a member of the in-flight list
  built from the pool. If every remaining candidate parses as an unsigned 64-bit decimal,
  the call returns the "no jobs available" error when none remains, and otherwise the
  value of the first remaining candidate in response order.
\<close>

theorem fetchJobID_first_remaining:
  assumes "\<not> Marshal_fails E (fetchRequestPayload (Each_procs (pools w (processors q))))"
    and "\<not> NewRequest_fails E ''POST''
           (Url (jobsRequest q (Size_result (pools w (processors q))) ctx
                  (fetchRequestPayload (Each_procs (pools w (processors q))))))"
    and "replies w = Responded resp # rs"
    and "decodeJobs E (Body resp) = Some (Some respJobs)"
    and "\<forall>s \<in> set (notRunning (fetchRequestPayload (Each_procs (pools w (processors q)))) respJobs).
           \<exists>i. ParseUint s = Inr i"
  shows "fst (fetchJobID E q ctx w) =
           (case notRunning (fetchRequestPayload (Each_procs (pools w (processors q)))) respJobs of
              [] \<Rightarrow> Err httpJobQueueNoJobsErr
            | s # rest \<Rightarrow> Ok (projr (ParseUint s)))"
proof -
  let ?prev = "fetchRequestPayload (Each_procs (pools w (processors q)))"
  have "filterJobIDs respJobs ?prev [] = Inr (map (\<lambda>s. projr (ParseUint s)) (notRunning ?prev respJobs))"
    using filterJobIDs_all_parse [OF assms(5), of "[]"] by simp
  then show ?thesis
    using fetchJobID_decoded [OF assms(1-4)] by (simp split: list.splits)
qed

text \<open>
  The two scenarios of the specification: with job 42 in flight, the response
  \<open>["42", "43"]\<close> yields 43 and the response \<open>["42"]\<close> yields "no jobs available".
\<close>

theorem fetchJobID_first_remaining_witness:
  "fst (fetchJobID example_env example_queue 0 (example_world [ok_reply ''jobs-42-43''])) = Ok 43 \<and>
   fst (fetchJobID example_env example_queue 0 (example_world [ok_reply ''jobs-42''])) = Err httpJobQueueNoJobsErr"
proof -
  have a: "\<not> Marshal_fails example_env (fetchRequestPayload (Each_procs (pools (example_world rs) (processors example_queue))))" for rs
    by (simp add: example_env_def)
  have b: "\<not> NewRequest_fails example_env ''POST''
           (Url (jobsRequest example_queue (Size_result (pools (example_world rs) (processors example_queue))) 0
                  (fetchRequestPayload (Each_procs (pools (example_world rs) (processors example_queue))))))" for rs
    by (simp add: example_env_def)
  have c: "replies (example_world [ok_reply s]) = Responded \<lparr> StatusCode = 200, Body = Bytes s \<rparr> # []" for s
    by (simp add: example_world_def ok_reply_def)
  have d1: "decodeJobs example_env (Body \<lparr> StatusCode = 200, Body = Bytes ''jobs-42-43'' \<rparr>) = Some (Some [''42'', ''43''])"
    by (simp add: decodeJobs_def example_env_def)
  have d2: "decodeJobs example_env (Body \<lparr> StatusCode = 200, Body = Bytes ''jobs-42'' \<rparr>) = Some (Some [''42''])"
    by (simp add: decodeJobs_def example_env_def)
  have p: "pools (example_world rs) (processors example_queue) = example_pool" for rs
    by (simp add: example_world_def)
  have e1: "\<forall>s \<in> set (notRunning (fetchRequestPayload (Each_procs (pools (example_world [ok_reply ''jobs-42-43'']) (processors example_queue)))) [''42'', ''43'']).
           \<exists>i. ParseUint s = Inr i"
    by (simp add: p example_inflight notRunning_def ParseUint_def is_digit_def)
  have e2: "\<forall>s \<in> set (notRunning (fetchRequestPayload (Each_procs (pools (example_world [ok_reply ''jobs-42'']) (processors example_queue)))) [''42'']).
           \<exists>i. ParseUint s = Inr i"
    by (simp add: p example_inflight notRunning_def ParseUint_def is_digit_def)
  show ?thesis
    using fetchJobID_first_remaining [OF a b c d1 e1] fetchJobID_first_remaining [OF a b c d2 e2]
    by (simp add: p example_inflight notRunning_def ParseUint_def is_digit_def)
qed

text \<open>
  Without the proviso on parsing the claim fails: with job 42 in flight and the response
  \<open>["43", "x"]\<close>, both candidates remain and the first one is 43, yet the call returns
  a parse error.
\<close>

theorem fetchJobID_first_remaining_counterexample:
  "notRunning (fetchRequestPayload (Each_procs example_pool)) [''43'', ''x''] = [''43'', ''x''] \<and>
   ParseUint ''43'' = Inr 43 \<and>
   fst (fetchJobID example_env example_queue 0 (example_world [ok_reply ''jobs-43-x'']))
     = Err (ParseJobIDFailed ErrSyntax)"
  by (simp add: example_inflight notRunning_def fetchJobID_def Let_def Do_def example_world_def
      example_env_def ok_reply_def decodeJobs_def alreadyRunning_iff ParseUint_def is_digit_def)

lemma fetchJobID_trace:
  assumes "\<not> Marshal_fails E (fetchRequestPayload (Each_procs (pools w (processors q))))"
    and "\<not> NewRequest_fails E ''POST''
           (Url (jobsRequest q (Size_result (pools w (processors q))) ctx
                  (fetchRequestPayload (Each_procs (pools w (processors q))))))"
  shows "requests (trace (snd (fetchJobID E q ctx w))) =
           requests (trace w) @
             [jobsRequest q (Size_result (pools w (processors q))) ctx
                (fetchRequestPayload (Each_procs (pools w (processors q))))]"
  using assms
  by (simp add: fetchJobID_def Let_def Do_def Close_def requests_append
      split: list.splits http_reply.splits option.splits sum.splits)

lemma set_Encode: "set (Encode v) = set v"
  by (simp add: Encode_def)

text \<open>
  Claim C5. When the request can be built, \<open>fetchJobID\<close> makes exactly one request. Its
  body lists the last job ids, as decimal strings, of exactly the processors whose status
  is \<open>processing\<close>, in pool order. It is a POST to the scheme and host of the job-board URL
  with path \<open>/jobs\<close>; its query holds \<open>count=1\<close>, \<open>capacity\<close> with the pool size and
  \<open>queue\<close> with the queue name beside the parameters the job-board URL already has; its
  headers are \<open>Content-Type\<close>, \<open>Travis-Site\<close> and \<open>From\<close>.
\<close>

theorem fetchJobID_request:
  assumes "\<not> Marshal_fails E (fetchRequestPayload (Each_procs (pools w (processors q))))"
    and "\<not> NewRequest_fails E ''POST''
           (Url (jobsRequest q (Size_result (pools w (processors q))) ctx
                  (fetchRequestPayload (Each_procs (pools w (processors q))))))"
  shows "\<exists>r. requests (trace (snd (fetchJobID E q ctx w))) = requests (trace w) @ [r] \<and>
           Payload r = Some (map (\<lambda>p. FormatUint (LastJobID p))
                       (filter (\<lambda>p. CurrentStatus p = ''processing'')
                          (Each_procs (pools w (processors q))))) \<and>
           Method r = ''POST'' \<and>
           Scheme (Url r) = Scheme (jobBoardURL q) \<and>
           Host (Url r) = Host (jobBoardURL q) \<and>
           Path (Url r) = ''/jobs'' \<and>
           set (RawQuery (Url r)) = set (RawQuery (jobBoardURL q)) \<union>
             {(''count'', ''1''), (''capacity'', Itoa (Size_result (pools w (processors q)))),
              (''queue'', queue q)} \<and>
           Header r = [(''Content-Type'', ''application/json''), (''Travis-Site'', site q),
                       (''From'', workerID q)]"
proof -
  let ?r = "jobsRequest q (Size_result (pools w (processors q))) ctx
              (fetchRequestPayload (Each_procs (pools w (processors q))))"
  have "requests (trace (snd (fetchJobID E q ctx w))) = requests (trace w) @ [?r]"
    by (rule fetchJobID_trace [OF assms])
  moreover have "Payload ?r = Some (map (\<lambda>p. FormatUint (LastJobID p))
                       (filter (\<lambda>p. CurrentStatus p = ''processing'')
                          (Each_procs (pools w (processors q)))))"
    by (simp add: jobsRequest_def fetchRequestPayload_eq)
  moreover have "Method ?r = ''POST''" "Scheme (Url ?r) = Scheme (jobBoardURL q)"
    "Host (Url ?r) = Host (jobBoardURL q)" "Path (Url ?r) = ''/jobs''"
    "Header ?r = [(''Content-Type'', ''application/json''), (''Travis-Site'', site q),
                       (''From'', workerID q)]"
    by (simp_all add: jobsRequest_def)
  moreover have "set (RawQuery (Url ?r)) = set (RawQuery (jobBoardURL q)) \<union>
             {(''count'', ''1''), (''capacity'', Itoa (Size_result (pools w (processors q)))),
              (''queue'', queue q)}"
    by (simp add: jobsRequest_def set_Encode)
  ultimately show ?thesis by blast
qed

lemma Itoa_2: "Itoa 2 = ''2''"
  by code_simp

theorem fetchJobID_request_witness:
  "\<exists>r. requests (trace (snd (fetchJobID example_env example_queue 0 (example_world [])))) = [r] \<and>
        Payload r = Some [''42''] \<and> Method r = ''POST'' \<and>
        Scheme (Url r) = ''https'' \<and> Host (Url r) = ''jobs.example.org'' \<and> Path (Url r) = ''/jobs'' \<and>
        set (RawQuery (Url r)) = {(''count'', ''1''), (''capacity'', ''2''), (''queue'', ''builds.gce'')} \<and>
        Header r = [(''Content-Type'', ''application/json''), (''Travis-Site'', ''site-a''),
                    (''From'', ''worker-1'')]"
proof -
  have a: "\<not> Marshal_fails example_env
             (fetchRequestPayload (Each_procs (pools (example_world []) (processors example_queue))))"
    by (simp add: example_env_def)
  have b: "\<not> NewRequest_fails example_env ''POST''
           (Url (jobsRequest example_queue
                  (Size_result (pools (example_world []) (processors example_queue))) 0
                  (fetchRequestPayload (Each_procs (pools (example_world []) (processors example_queue))))))"
    by (simp add: example_env_def)
  have p: "pools (example_world []) (processors example_queue) = example_pool"
    by (simp add: example_world_def)
  have f: "map (\<lambda>p. FormatUint (LastJobID p))
             (filter (\<lambda>p. CurrentStatus p = ''processing'') (Each_procs example_pool)) = [''42'']"
    by (simp add: example_pool_def FormatUint_42)
  have s: "Size_result example_pool = 2"
    by (simp add: example_pool_def)
  have t: "trace (example_world []) = []"
    by (simp add: example_world_def)
  show ?thesis
    using fetchJobID_request [OF a b]
    unfolding p f s t Itoa_2
    by (simp add: example_queue_def NewHTTPJobQueue_def)
qed

text \<open>
  Claim C8. The filter compares strings. A candidate that parses to the job id of a
  processing processor, but is not spelled as \<open>FormatUint\<close> spells that id, is not
  filtered out: offered alone, it is returned, although the decimal string of the same id
  is in the in-flight list.
\<close>

theorem fetchJobID_string_equality:
  assumes "\<not> Marshal_fails E (fetchRequestPayload (Each_procs (pools w (processors q))))"
    and "\<not> NewRequest_fails E ''POST''
           (Url (jobsRequest q (Size_result (pools w (processors q))) ctx
                  (fetchRequestPayload (Each_procs (pools w (processors q))))))"
    and "replies w = Responded resp # rs"
    and "decodeJobs E (Body resp) = Some (Some [strID])"
    and "p \<in> set (Each_procs (pools w (processors q)))"
    and "CurrentStatus p = ''processing''"
    and "ParseUint strID = Inr (LastJobID p)"
    and "strID \<notin> set (fetchRequestPayload (Each_procs (pools w (processors q))))"
  shows "FormatUint (LastJobID p) \<in> set (fetchRequestPayload (Each_procs (pools w (processors q)))) \<and>
         fst (fetchJobID E q ctx w) = Ok (LastJobID p)"
proof
  show "FormatUint (LastJobID p) \<in> set (fetchRequestPayload (Each_procs (pools w (processors q))))"
    using assms(5,6) by (auto simp: fetchRequestPayload_eq)
  show "fst (fetchJobID E q ctx w) = Ok (LastJobID p)"
    using fetchJobID_decoded [OF assms(1-4)] assms(7,8)
    by (simp add: alreadyRunning_iff)
qed

text \<open>With job 42 in flight, the candidate \<open>"042"\<close> is returned as job 42.\<close>

theorem fetchJobID_string_equality_witness:
  "ParseUint ''042'' = Inr 42 \<and>
   ''42'' \<in> set (fetchRequestPayload (Each_procs example_pool)) \<and>
   ''042'' \<notin> set (fetchRequestPayload (Each_procs example_pool)) \<and>
   fst (fetchJobID example_env example_queue 0 (example_world [ok_reply ''jobs-042''])) = Ok 42"
proof -
  let ?w = "example_world [ok_reply ''jobs-042'']"
  let ?p = "\<lparr> CurrentStatus = ''processing'', LastJobID = 42 \<rparr>"
  have pw: "pools ?w (processors example_queue) = example_pool"
    by (simp add: example_world_def)
  have a: "\<not> Marshal_fails example_env
             (fetchRequestPayload (Each_procs (pools ?w (processors example_queue))))"
    by (simp add: example_env_def)
  have b: "\<not> NewRequest_fails example_env ''POST''
           (Url (jobsRequest example_queue (Size_result (pools ?w (processors example_queue))) 0
                  (fetchRequestPayload (Each_procs (pools ?w (processors example_queue))))))"
    by (simp add: example_env_def)
  have c: "replies ?w = Responded \<lparr> StatusCode = 200, Body = Bytes ''jobs-042'' \<rparr> # []"
    by (simp add: example_world_def ok_reply_def)
  have d: "decodeJobs example_env (Body \<lparr> StatusCode = 200, Body = Bytes ''jobs-042'' \<rparr>)
             = Some (Some [''042''])"
    by (simp add: decodeJobs_def example_env_def)
  have e: "?p \<in> set (Each_procs (pools ?w (processors example_queue)))"
    by (simp add: pw example_pool_def)
  have f: "CurrentStatus ?p = ''processing''"
    by simp
  have g: "ParseUint ''042'' = Inr (LastJobID ?p)"
    by (simp add: ParseUint_def is_digit_def)
  have h: "''042'' \<notin> set (fetchRequestPayload (Each_procs (pools ?w (processors example_queue))))"
    by (simp add: pw example_inflight)
  show ?thesis
    using fetchJobID_string_equality [OF a b c d e f g h] g h
    by (simp add: pw FormatUint_42)
qed

text \<open>
  Claim C10. When the job board answers with a candidate list, \<open>fetchJobID\<close> returns a
  parse error exactly when some candidate that is not in flight fails to parse, wherever
  it stands in the response; a candidate that is in flight is never parsed and cannot
  cause the error.
\<close>

theorem fetchJobID_parse_error_iff:
  assumes "\<not> Marshal_fails E (fetchRequestPayload (Each_procs (pools w (processors q))))"
    and "\<not> NewRequest_fails E ''POST''
           (Url (jobsRequest q (Size_result (pools w (processors q))) ctx
                  (fetchRequestPayload (Each_procs (pools w (processors q))))))"
    and "replies w = Responded resp # rs"
    and "decodeJobs E (Body resp) = Some (Some respJobs)"
  shows "(\<exists>e. fst (fetchJobID E q ctx w) = Err (ParseJobIDFailed e)) \<longleftrightarrow>
         (\<exists>s \<in> set (notRunning (fetchRequestPayload (Each_procs (pools w (processors q)))) respJobs).
            \<exists>e. ParseUint s = Inl e)"
proof
  let ?prev = "fetchRequestPayload (Each_procs (pools w (processors q)))"
  assume "\<exists>s \<in> set (notRunning ?prev respJobs). \<exists>e. ParseUint s = Inl e"
  from filterJobIDs_some_fails [OF this, of "[]"]
  show "\<exists>e. fst (fetchJobID E q ctx w) = Err (ParseJobIDFailed e)"
    using fetchJobID_decoded [OF assms] by auto
next
  let ?prev = "fetchRequestPayload (Each_procs (pools w (processors q)))"
  assume err: "\<exists>e. fst (fetchJobID E q ctx w) = Err (ParseJobIDFailed e)"
  show "\<exists>s \<in> set (notRunning ?prev respJobs). \<exists>e. ParseUint s = Inl e"
  proof (rule ccontr)
    assume "\<not> (\<exists>s \<in> set (notRunning ?prev respJobs). \<exists>e. ParseUint s = Inl e)"
    then have "\<forall>s \<in> set (notRunning ?prev respJobs). \<exists>i. ParseUint s = Inr i"
      by (metis sum.exhaust)
    from filterJobIDs_all_parse [OF this, of "[]"] err
    show False
      using fetchJobID_decoded [OF assms] by (auto split: list.splits)
  qed
qed

text \<open>The response \<open>["43", "x"]\<close>: 43 parses, and the call still fails on \<open>"x"\<close>.\<close>

theorem fetchJobID_parse_error_iff_witness:
  "ParseUint ''43'' = Inr 43 \<and> ParseUint ''x'' = Inl ErrSyntax \<and>
   (\<exists>e. fst (fetchJobID example_env example_queue 0 (example_world [ok_reply ''jobs-43-x'']))
      = Err (ParseJobIDFailed e))"
proof -
  let ?w = "example_world [ok_reply ''jobs-43-x'']"
  have pw: "pools ?w (processors example_queue) = example_pool"
    by (simp add: example_world_def)
  have a: "\<not> Marshal_fails example_env
             (fetchRequestPayload (Each_procs (pools ?w (processors example_queue))))"
    by (simp add: example_env_def)
  have b: "\<not> NewRequest_fails example_env ''POST''
           (Url (jobsRequest example_queue (Size_result (pools ?w (processors example_queue))) 0
                  (fetchRequestPayload (Each_procs (pools ?w (processors example_queue))))))"
    by (simp add: example_env_def)
  have c: "replies ?w = Responded \<lparr> StatusCode = 200, Body = Bytes ''jobs-43-x'' \<rparr> # []"
    by (simp add: example_world_def ok_reply_def)
  have d: "decodeJobs example_env (Body \<lparr> StatusCode = 200, Body = Bytes ''jobs-43-x'' \<rparr>)
             = Some (Some [''43'', ''x''])"
    by (simp add: decodeJobs_def example_env_def)
  have x: "ParseUint ''x'' = Inl ErrSyntax" and y: "ParseUint ''43'' = Inr 43"
    by (simp_all add: ParseUint_def is_digit_def)
  have e: "\<exists>s \<in> set (notRunning (fetchRequestPayload (Each_procs (pools ?w (processors example_queue))))
              [''43'', ''x'']). \<exists>e. ParseUint s = Inl e"
    by (simp add: pw example_inflight notRunning_def x)
  show ?thesis
    using fetchJobID_parse_error_iff [OF a b c d] e x y by simp
qed

subsection \<open>fetchJob: the start attributes\<close>

lemma finalStartAttributes_VMType:
  assumes "finalStartAttributes E q pl startAttrs = Some a"
  shows "\<exists>dat. payload_Data pl = Some dat \<and>
           VMType a = (if payload_VMType dat = [] then VMTypeDefault E else payload_VMType dat)"
  using assms
  by (auto simp: finalStartAttributes_def SetDefaults_def split: option.splits)

lemma parseJob_Ok:
  assumes "parseJob E q b = Ok j"
  shows "\<exists>startAttrs. finalStartAttributes E q (payload j) startAttrs = Some (startAttributes j)"
  using assms
  by (auto simp: parseJob_def split: body.splits option.splits)

lemma fetchJob_Ok:
  assumes "fst (fetchJob E q ctx jobID w) = Ok j"
  shows "\<exists>b. parseJob E q b = Ok j"
  using assms
  by (auto simp: fetchJob_def split: if_splits prod.splits option.splits)

text \<open>
  Claim C4, as amended. In every job that \<open>fetchJob\<close> returns, the VM type of the final
  start attributes is the VM type of the payload when that is not empty, and the default
  VM type when it is empty; the VM type given in the start-attributes subtree never shows.
\<close>

theorem fetchJob_VMType:
  assumes "fst (fetchJob E q ctx jobID w) = Ok j"
  shows "\<exists>dat. payload_Data (payload j) = Some dat \<and>
           VMType (startAttributes j) =
             (if payload_VMType dat = [] then VMTypeDefault E else payload_VMType dat)"
proof -
  from fetchJob_Ok [OF assms] obtain b where "parseJob E q b = Ok j" ..
  from parseJob_Ok [OF this] obtain startAttrs
    where "finalStartAttributes E q (payload j) startAttrs = Some (startAttributes j)" ..
  from finalStartAttributes_VMType [OF this] show ?thesis .
qed

lemma fetchJob_example:
  "fst (fetchJob example_env example_queue 0 43 (example_world [ok_reply b]))
     = parseJob example_env example_queue (Bytes b)"
  by (simp add: fetchJob_def example_env_def example_world_def ok_reply_def jobOperation_def
      Do_def)

lemma parseJob_premium:
  "parseJob example_env example_queue (Bytes ''job-premium'') =
     Ok \<lparr> payload = \<lparr> payload_Data = Some \<lparr> payload_VMType = ''premium'' \<rparr> \<rparr>,
          rawPayload = Json 0,
          startAttributes = \<lparr> Language = ''ruby'', Dist = [], Group = [], OS = ''linux'',
                              VMType = ''premium'' \<rparr>,
          job_jobBoardURL = jobBoardURL example_queue,
          job_site = ''site-a'', job_workerID = ''worker-1'' \<rparr>"
  by (simp add: parseJob_def example_env_def example_attrs_def finalStartAttributes_def
      SetDefaults_def example_queue_def NewHTTPJobQueue_def)

lemma parseJob_plain:
  "parseJob example_env example_queue (Bytes ''job-plain'') =
     Ok \<lparr> payload = \<lparr> payload_Data = Some \<lparr> payload_VMType = [] \<rparr> \<rparr>,
          rawPayload = Json 1,
          startAttributes = \<lparr> Language = [], Dist = [], Group = [], OS = ''linux'',
                              VMType = ''default'' \<rparr>,
          job_jobBoardURL = jobBoardURL example_queue,
          job_site = ''site-a'', job_workerID = ''worker-1'' \<rparr>"
  by (simp add: parseJob_def example_env_def example_attrs_def finalStartAttributes_def
      SetDefaults_def example_queue_def NewHTTPJobQueue_def)

text \<open>
  A body whose payload says \<open>premium\<close> and whose start attributes say \<open>default\<close>: the
  job has \<open>premium\<close>.
\<close>

theorem fetchJob_VMType_witness:
  "Unmarshal_startAttrs example_env ''job-premium'' = Some (example_attrs ''ruby'' ''default'') \<and>
   payloadVMType (fst (fetchJob example_env example_queue 0 43 (example_world [ok_reply ''job-premium'']))) = Some ''premium'' \<and>
   finalVMType (fst (fetchJob example_env example_queue 0 43 (example_world [ok_reply ''job-premium'']))) = Some ''premium''"
proof -
  let ?r = "fst (fetchJob example_env example_queue 0 43 (example_world [ok_reply ''job-premium'']))"
  obtain j where j: "?r = Ok j"
    by (simp add: fetchJob_example parseJob_premium)
  have p: "payload_Data (payload j) = Some \<lparr> payload_VMType = ''premium'' \<rparr>"
    using j by (auto simp: fetchJob_example parseJob_premium)
  from fetchJob_VMType [OF j] p
  have "VMType (startAttributes j) = ''premium''"
    by simp
  with j p show ?thesis
    by (simp add: finalVMType_def payloadVMType_def returnedJob_def example_env_def)
qed

text \<open>
  As first stated the claim fails where the payload has no VM type: the job is returned
  with the default VM type, which is not the (empty) VM type of the payload.
\<close>

theorem fetchJob_VMType_counterexample:
  "payloadVMType (fst (fetchJob example_env example_queue 0 43 (example_world [ok_reply ''job-plain'']))) = Some [] \<and>
   finalVMType (fst (fetchJob example_env example_queue 0 43 (example_world [ok_reply ''job-plain'']))) = Some ''default''"
  by (simp add: fetchJob_example parseJob_plain finalVMType_def payloadVMType_def returnedJob_def)

subsection \<open>fetchJob: the retry\<close>

lemma jobOperation_retryable:
  assumes "replies w = r # rs" and "retryable r"
  shows "\<exists>resp err. jobOperation req w =
           ((resp, Some err), w\<lparr>replies := rs, trace := trace w @ Requested req # closedBody r\<rparr>)"
  using assms
  by (cases r) (auto simp: jobOperation_def Do_def Close_def)

lemma jobOperation_ok:
  assumes "replies w = Responded resp # rs" and "StatusCode resp = 200"
  shows "jobOperation req w =
           ((Some resp, None), w\<lparr>replies := rs, trace := trace w @ [Requested req]\<rparr>)"
  using assms
  by (simp add: jobOperation_def Do_def)

lemma Retry_ok_at_once:
  assumes "replies w = Responded resp # rs" and "StatusCode resp = 200"
  shows "Retry (jobOperation req) waits w =
           ((Some resp, None), w\<lparr>replies := rs, trace := trace w @ [Requested req]\<rparr>)"
  using jobOperation_ok [OF assms, of req]
  by (cases waits) simp_all

lemma Retry_until_ok:
  assumes "list_all retryable fails"
    and "length fails \<le> length waits"
    and "replies w = fails @ Responded resp # rest"
    and "StatusCode resp = 200"
  shows "Retry (jobOperation req) waits w =
           ((Some resp, None),
            w\<lparr>replies := rest, trace := trace w @ retryEvents req fails waits @ [Requested req]\<rparr>)"
  using assms
proof (induction fails arbitrary: waits w)
  case Nil
  then show ?case
    using Retry_ok_at_once [of w resp rest req waits] by simp
next
  case (Cons r fails)
  from Cons.prems(2) obtain d ds where waits: "waits = d # ds" and len: "length fails \<le> length ds"
    by (cases waits) auto
  from Cons.prems(1) have r: "retryable r" and fs: "list_all retryable fails"
    by simp_all
  from Cons.prems(3) have rep: "replies w = r # (fails @ Responded resp # rest)"
    by simp
  from jobOperation_retryable [OF rep r, of req] obtain rsp err where
    op: "jobOperation req w =
           ((rsp, Some err),
            w\<lparr>replies := fails @ Responded resp # rest,
              trace := trace w @ Requested req # closedBody r\<rparr>)"
    by blast
  let ?w = "w\<lparr>replies := fails @ Responded resp # rest,
              trace := trace w @ Requested req # closedBody r @ [Slept d]\<rparr>"
  have "Retry (jobOperation req) waits w = Retry (jobOperation req) ds ?w"
    by (simp add: waits op)
  also have "\<dots> = ((Some resp, None),
            ?w\<lparr>replies := rest, trace := trace ?w @ retryEvents req fails ds @ [Requested req]\<rparr>)"
    by (rule Cons.IH [OF fs len _ Cons.prems(4)]) simp
  finally show ?case
    by (simp add: waits)
qed

lemma requests_retryEvents:
  "length fails \<le> length waits \<Longrightarrow>
   requests (retryEvents req fails waits) = replicate (length fails) req"
proof (induction req fails waits rule: retryEvents.induct)
  case (1 req r rs d ds)
  then show ?case
    by (cases r) (simp_all add: requests_append)
qed simp_all

lemma parseJob_decode_failure:
  assumes "Unmarshal_payload E bytes = None \<or> Unmarshal_startAttrs E bytes = None \<or>
           NewJson E bytes = None"
  shows "parseJob E q (Bytes bytes) \<in>
           {Err UnmarshalPayloadFailed, Err UnmarshalStartAttrsFailed, Err SimplejsonFailed}"
  using assms
  by (auto simp: parseJob_def split: option.splits)

lemma jobBackOff_intervals:
  "MaxInterval jobBackOff = 10 * Second" "MaxElapsedTime jobBackOff = 1 * Minute"
  by (simp_all add: jobBackOff_def)

text \<open>
  Claim C6. The policy that \<open>fetchJob\<close> hands to \<open>Retry\<close> has a maximal interval of 10
  seconds and a maximal elapsed time of 1 minute. When the job board answers with replies
  that are transport errors or statuses other than 200, no more of them than the policy
  hands out waits, and then with status 200, \<open>fetchJob\<close> makes one request per reply: each
  failed attempt is followed by the closing of the body of its response, then by the wait,
  then by the next request. The reply with status 200 is asked for once, its body is read
  and closed, and the result is what parsing that body gives; if one of the three parses
  fails the result is that decode error, and no further request is made.
\<close>

theorem fetchJob_retry:
  assumes "\<not> NewRequest_fails E ''GET'' (Url (jobRequest q ctx jobID))"
    and "replies w = fails @ Responded resp # rest"
    and "list_all retryable fails"
    and "StatusCode resp = 200"
    and "length fails \<le> length (NextBackOffs E jobBackOff)"
  shows "MaxInterval jobBackOff = 10 * Second \<and> MaxElapsedTime jobBackOff = 1 * Minute \<and>
         trace (snd (fetchJob E q ctx jobID w)) =
           trace w @ retryEvents (jobRequest q ctx jobID) fails (NextBackOffs E jobBackOff)
             @ [Requested (jobRequest q ctx jobID), BodyClosed] \<and>
         requests (trace (snd (fetchJob E q ctx jobID w))) =
           requests (trace w) @ replicate (Suc (length fails)) (jobRequest q ctx jobID) \<and>
         replies (snd (fetchJob E q ctx jobID w)) = rest \<and>
         fst (fetchJob E q ctx jobID w) = parseJob E q (Body resp) \<and>
         (\<forall>bytes. Body resp = Bytes bytes \<and>
            (Unmarshal_payload E bytes = None \<or> Unmarshal_startAttrs E bytes = None \<or>
             NewJson E bytes = None) \<longrightarrow>
            fst (fetchJob E q ctx jobID w) \<in>
              {Err UnmarshalPayloadFailed, Err UnmarshalStartAttrsFailed, Err SimplejsonFailed})"
proof -
  let ?req = "jobRequest q ctx jobID"
  let ?waits = "NextBackOffs E jobBackOff"
  have run: "fetchJob E q ctx jobID w =
          (parseJob E q (Body resp),
           Close (w\<lparr>replies := rest,
                    trace := trace w @ retryEvents ?req fails ?waits @ [Requested ?req]\<rparr>))"
    using assms(1) Retry_until_ok [OF assms(3) assms(5) assms(2) assms(4), of ?req]
    by (simp add: fetchJob_def)
  have tr: "trace (snd (fetchJob E q ctx jobID w)) =
           trace w @ retryEvents ?req fails ?waits @ [Requested ?req, BodyClosed]"
    by (simp add: run Close_def)
  have rq: "requests (trace (snd (fetchJob E q ctx jobID w))) =
           requests (trace w) @ replicate (Suc (length fails)) ?req"
    by (simp add: tr requests_append requests_retryEvents [OF assms(5)] replicate_append_same)
  have rp: "replies (snd (fetchJob E q ctx jobID w)) = rest"
    by (simp add: run Close_def)
  have res: "fst (fetchJob E q ctx jobID w) = parseJob E q (Body resp)"
    by (simp add: run)
  have dec: "\<forall>bytes. Body resp = Bytes bytes \<and>
            (Unmarshal_payload E bytes = None \<or> Unmarshal_startAttrs E bytes = None \<or>
             NewJson E bytes = None) \<longrightarrow>
            fst (fetchJob E q ctx jobID w) \<in>
              {Err UnmarshalPayloadFailed, Err UnmarshalStartAttrsFailed, Err SimplejsonFailed}"
    using parseJob_decode_failure [of E _ q] by (simp add: res)
  from jobBackOff_intervals tr rq rp res dec show ?thesis
    by blast
qed

text \<open>
  A transport error, a 503 and then a 200 whose start attributes do not decode: three
  requests, the body of the 503 closed before the second wait, and the decode error
  returned with the fourth reply left unasked.
\<close>

theorem fetchJob_retry_witness:
  "fst (fetchJob example_env example_queue 0 43
          (example_world [Failed, status_reply 503, ok_reply ''job-attrs-broken'', ok_reply ''job-plain'']))
     = Err UnmarshalStartAttrsFailed \<and>
   trace (snd (fetchJob example_env example_queue 0 43
          (example_world [Failed, status_reply 503, ok_reply ''job-attrs-broken'', ok_reply ''job-plain''])))
     = [Requested (jobRequest example_queue 0 43), Slept 500000000,
        Requested (jobRequest example_queue 0 43), BodyClosed, Slept 750000000,
        Requested (jobRequest example_queue 0 43), BodyClosed] \<and>
   replies (snd (fetchJob example_env example_queue 0 43
          (example_world [Failed, status_reply 503, ok_reply ''job-attrs-broken'', ok_reply ''job-plain''])))
     = [ok_reply ''job-plain'']"
proof -
  let ?w = "example_world [Failed, status_reply 503, ok_reply ''job-attrs-broken'', ok_reply ''job-plain'']"
  let ?resp = "\<lparr> StatusCode = 200, Body = Bytes ''job-attrs-broken'' \<rparr>"
  have a: "\<not> NewRequest_fails example_env ''GET'' (Url (jobRequest example_queue 0 43))"
    by (simp add: example_env_def)
  have b: "replies ?w = [Failed, status_reply 503] @ Responded ?resp # [ok_reply ''job-plain'']"
    by (simp add: example_world_def ok_reply_def)
  have c: "list_all retryable [Failed, status_reply 503]"
    by (simp add: status_reply_def)
  have d: "StatusCode ?resp = 200"
    by simp
  have n: "NextBackOffs example_env jobBackOff = [500000000, 750000000]"
    by (simp add: example_env_def)
  have e: "length [Failed, status_reply 503] \<le> length (NextBackOffs example_env jobBackOff)"
    by (simp add: n)
  have p: "parseJob example_env example_queue (Bytes ''job-attrs-broken'') = Err UnmarshalStartAttrsFailed"
    by (simp add: parseJob_def example_env_def)
  have t: "trace ?w = []"
    by (simp add: example_world_def)
  note r = fetchJob_retry [OF a b c d e]
  note tr = r [THEN conjunct2, THEN conjunct2, THEN conjunct1]
  note rp = r [THEN conjunct2, THEN conjunct2, THEN conjunct2, THEN conjunct2, THEN conjunct1]
  note res = r [THEN conjunct2, THEN conjunct2, THEN conjunct2, THEN conjunct2, THEN conjunct2,
                THEN conjunct1]
  have cb: "closedBody (status_reply 503) = [BodyClosed]"
    by (simp add: status_reply_def)
  show ?thesis
    by (simp add: tr rp res n p t cb)
qed

text \<open>
  When the policy runs out of waits before a reply with status 200 arrives, \<open>fetchJob\<close>
  gives up with the error of the last attempt.
\<close>

lemma Retry_gives_up:
  assumes "list_all retryable fails"
    and "length fails = Suc (length waits)"
    and "replies w = fails @ rest"
  shows "\<exists>resp err. fst (Retry (jobOperation req) waits w) = (resp, Some err) \<and>
           replies (snd (Retry (jobOperation req) waits w)) = rest"
  using assms
proof (induction waits arbitrary: fails w)
  case Nil
  then obtain r where fails: "fails = [r]" and r: "retryable r"
    by (cases fails) auto
  with Nil.prems(3) have "replies w = r # rest"
    by simp
  from jobOperation_retryable [OF this r, of req] show ?case
    by auto
next
  case (Cons d ds)
  then obtain r fs where fails: "fails = r # fs" and r: "retryable r"
    and fs: "list_all retryable fs" and len: "length fs = Suc (length ds)"
    by (cases fails) auto
  with Cons.prems(3) have rep: "replies w = r # (fs @ rest)"
    by simp
  from jobOperation_retryable [OF rep r, of req] obtain rsp err where
    op: "jobOperation req w =
           ((rsp, Some err), w\<lparr>replies := fs @ rest, trace := trace w @ Requested req # closedBody r\<rparr>)"
    by blast
  let ?w = "w\<lparr>replies := fs @ rest, trace := trace w @ Requested req # closedBody r @ [Slept d]\<rparr>"
  have step: "Retry (jobOperation req) (d # ds) w = Retry (jobOperation req) ds ?w"
    by (simp add: op)
  have "replies ?w = fs @ rest"
    by simp
  from Cons.IH [OF fs len this] show ?case
    unfolding step .
qed

lemma fetchJob_gives_up:
  assumes "\<not> NewRequest_fails E ''GET'' (Url (jobRequest q ctx jobID))"
    and "list_all retryable fails"
    and "length fails = Suc (length (NextBackOffs E jobBackOff))"
    and "replies w = fails @ rest"
  shows "\<exists>err. fst (fetchJob E q ctx jobID w) = Err (MakeJobRequestFailed err) \<and>
           replies (snd (fetchJob E q ctx jobID w)) = rest"
proof -
  from Retry_gives_up [OF assms(2-4), of "jobRequest q ctx jobID"] obtain resp err where
    "fst (Retry (jobOperation (jobRequest q ctx jobID)) (NextBackOffs E jobBackOff) w) = (resp, Some err)"
    "replies (snd (Retry (jobOperation (jobRequest q ctx jobID)) (NextBackOffs E jobBackOff) w)) = rest"
    by blast
  with assms(1) show ?thesis
    by (cases resp) (auto simp: fetchJob_def split: prod.splits)
qed

subsection \<open>The poll attempt\<close>

lemma sends_append: "sends c (es @ fs) = sends c es @ sends c fs"
  by (induction c es rule: sends.induct) auto

lemma fetchJobID_sends:
  "sends c (trace (snd (fetchJobID E q ctx w))) = sends c (trace w)"
  by (simp add: fetchJobID_def Let_def Do_def Close_def sends_append
      split: list.splits http_reply.splits option.splits sum.splits)

lemma fetchJobID_receivers:
  "receivers (snd (fetchJobID E q ctx w)) = receivers w"
  by (simp add: fetchJobID_def Let_def Do_def Close_def
      split: list.splits http_reply.splits option.splits sum.splits)

lemma jobOperation_sends:
  "sends c (trace (snd (jobOperation req w))) = sends c (trace w)"
  by (simp add: jobOperation_def Do_def Close_def sends_append
      split: list.splits http_reply.splits)

lemma jobOperation_receivers:
  "receivers (snd (jobOperation req w)) = receivers w"
  by (simp add: jobOperation_def Do_def Close_def split: list.splits http_reply.splits)

lemma Retry_sends:
  "sends c (trace (snd (Retry (jobOperation req) waits w))) = sends c (trace w)"
proof (induction waits arbitrary: w)
  case Nil
  show ?case by (simp add: jobOperation_sends)
next
  case (Cons d ds)
  obtain resp err w1 where op: "jobOperation req w = ((resp, err), w1)"
    by (metis prod.exhaust)
  then have w1: "sends c (trace w1) = sends c (trace w)"
    using jobOperation_sends [of c req w] by simp
  show ?case
  proof (cases err)
    case None
    with op w1 show ?thesis by simp
  next
    case (Some e)
    with op have "Retry (jobOperation req) (d # ds) w =
                    Retry (jobOperation req) ds (w1\<lparr>trace := trace w1 @ [Slept d]\<rparr>)"
      by simp
    then show ?thesis
      by (simp add: Cons.IH sends_append w1)
  qed
qed

lemma Retry_receivers:
  "receivers (snd (Retry (jobOperation req) waits w)) = receivers w"
proof (induction waits arbitrary: w)
  case Nil
  show ?case by (simp add: jobOperation_receivers)
next
  case (Cons d ds)
  obtain resp err w1 where op: "jobOperation req w = ((resp, err), w1)"
    by (metis prod.exhaust)
  then have w1: "receivers w1 = receivers w"
    using jobOperation_receivers [of req w] by simp
  show ?case
  proof (cases err)
    case None
    with op w1 show ?thesis by simp
  next
    case (Some e)
    with op have "Retry (jobOperation req) (d # ds) w =
                    Retry (jobOperation req) ds (w1\<lparr>trace := trace w1 @ [Slept d]\<rparr>)"
      by simp
    then show ?thesis
      by (simp add: Cons.IH w1)
  qed
qed

lemma fetchJob_sends:
  "sends c (trace (snd (fetchJob E q ctx jobID w))) = sends c (trace w)"
proof (cases "NewRequest_fails E ''GET'' (Url (jobRequest q ctx jobID))")
  case True
  then show ?thesis by (simp add: fetchJob_def)
next
  case False
  obtain resp err w1 where
    r: "Retry (jobOperation (jobRequest q ctx jobID)) (NextBackOffs E jobBackOff) w = ((resp, err), w1)"
    by (metis prod.exhaust)
  then have "sends c (trace w1) = sends c (trace w)"
    using Retry_sends [of c "jobRequest q ctx jobID" "NextBackOffs E jobBackOff" w] by simp
  with False r show ?thesis
    by (simp add: fetchJob_def Close_def sends_append split: option.splits)
qed

lemma fetchJob_receivers:
  "receivers (snd (fetchJob E q ctx jobID w)) = receivers w"
proof (cases "NewRequest_fails E ''GET'' (Url (jobRequest q ctx jobID))")
  case True
  then show ?thesis by (simp add: fetchJob_def)
next
  case False
  obtain resp err w1 where
    r: "Retry (jobOperation (jobRequest q ctx jobID)) (NextBackOffs E jobBackOff) w = ((resp, err), w1)"
    by (metis prod.exhaust)
  then have "receivers w1 = receivers w"
    using Retry_receivers [of "jobRequest q ctx jobID" "NextBackOffs E jobBackOff" w] by simp
  with False r show ?thesis
    by (simp add: fetchJob_def Close_def split: option.splits)
qed

text \<open>
  Claim C7. In a poll attempt in which the readiness signal fires, \<open>fetchJobID\<close> returns an
  id and \<open>fetchJob\<close> returns an error, and a consumer is there to take a value from the
  channel, \<open>pollForJobs\<close> sends exactly one value on the channel, the nil job, and returns
  \<open>httpPollStateSleep\<close> with the queue unchanged. No error comes out: \<open>pollForJobs\<close>
  returns a poll state only, and \<open>Jobs\<close> and \<open>Cleanup\<close> return a nil error.
\<close>

theorem pollForJobs_nil_job:
  assumes "ready_fires w ready"
    and "fetchJobID E q ctx w = (Ok jobID, w1)"
    and "fetchJob E q ctx jobID w1 = (Err err, w2)"
    and "0 < receivers w c"
  shows "\<exists>w3. pollForJobs E q ctx ready c w = Returns (httpPollStateSleep, q, w3) \<and>
              sends c (trace w3) = sends c (trace w) @ [None] \<and>
              snd (fst (Jobs q ctx ready w3)) = None \<and> Cleanup q = None"
proof -
  have s1: "sends c (trace w1) = sends c (trace w)" and r1: "receivers w1 = receivers w"
    using fetchJobID_sends [of c E q ctx w] fetchJobID_receivers [of E q ctx w] assms(2)
    by simp_all
  have s2: "sends c (trace w2) = sends c (trace w1)" and r2: "receivers w2 = receivers w1"
    using fetchJob_sends [of c E q ctx jobID w1] fetchJob_receivers [of E q ctx jobID w1] assms(3)
    by simp_all
  let ?w3 = "w2\<lparr>trace := trace w2 @ [Sent c None],
                receivers := (receivers w2)(c := receivers w2 c - 1)\<rparr>"
  have "send c None w2 = Some ?w3"
    using assms(4) by (simp add: send_def r1 r2)
  then have "pollForJobs E q ctx ready c w = Returns (httpPollStateSleep, q, ?w3)"
    using assms(1-3) by (simp add: pollForJobs_def)
  moreover have "sends c (trace ?w3) = sends c (trace w) @ [None]"
    by (simp add: sends_append s1 s2)
  moreover have "snd (fst (Jobs q ctx ready ?w3)) = None"
    by (simp add: Jobs_def split: option.splits)
  moreover have "Cleanup q = None"
    by (simp add: Cleanup_def)
  ultimately show ?thesis by blast
qed

lemma fetchJob_ok_at_once:
  assumes "\<not> NewRequest_fails E ''GET'' (Url (jobRequest q ctx jobID))"
    and "replies w = Responded resp # rest"
    and "StatusCode resp = 200"
  shows "fetchJob E q ctx jobID w =
           (parseJob E q (Body resp),
            Close (w\<lparr>replies := rest, trace := trace w @ [Requested (jobRequest q ctx jobID)]\<rparr>))"
  using assms(1) Retry_ok_at_once [OF assms(2,3)]
  by (simp add: fetchJob_def)

text \<open>With no consumer the send never completes and the attempt does not return.\<close>

lemma pollForJobs_blocks:
  assumes "ready_fires w ready"
    and "fetchJobID E q ctx w = (Ok jobID, w1)"
    and "fetchJob E q ctx jobID w1 = (Err err, w2)"
    and "receivers w c = 0"
  shows "pollForJobs E q ctx ready c w = Blocks"
proof -
  have "receivers w1 = receivers w"
    using fetchJobID_receivers [of E q ctx w] assms(2) by simp
  moreover have "receivers w2 = receivers w1"
    using fetchJob_receivers [of E q ctx jobID w1] assms(3) by simp
  ultimately have "send c None w2 = None"
    using assms(4) by (simp add: send_def)
  then show ?thesis
    using assms(1-3) by (simp add: pollForJobs_def)
qed

lemma fetchJobID_answered:
  assumes "\<not> Marshal_fails E (fetchRequestPayload (Each_procs (pools w (processors q))))"
    and "\<not> NewRequest_fails E ''POST''
           (Url (jobsRequest q (Size_result (pools w (processors q))) ctx
                  (fetchRequestPayload (Each_procs (pools w (processors q))))))"
    and "replies w = Responded resp # rs"
    and "decodeJobs E (Body resp) = Some (Some respJobs)"
  shows "fetchJobID E q ctx w =
           (case filterJobIDs respJobs (fetchRequestPayload (Each_procs (pools w (processors q)))) [] of
              Inl e \<Rightarrow> Err (ParseJobIDFailed e)
            | Inr [] \<Rightarrow> Err httpJobQueueNoJobsErr
            | Inr (i # rest) \<Rightarrow> Ok i,
            Close (w\<lparr>replies := rs,
                     trace := trace w @
                       [Requested (jobsRequest q (Size_result (pools w (processors q))) ctx
                          (fetchRequestPayload (Each_procs (pools w (processors q)))))]\<rparr>))"
  using assms by (simp add: fetchJobID_def Let_def Do_def split: sum.splits list.splits)

lemma example_fetchJobID_43:
  "fetchJobID example_env (example_queue\<lparr>buildJobChan := b\<rparr>) 0
     ((example_world (ok_reply ''jobs-42-43'' # rs))\<lparr>ctx_done := d\<rparr>) =
   (Ok 43,
    Close ((example_world (ok_reply ''jobs-42-43'' # rs))
      \<lparr>ctx_done := d, replies := rs,
        trace := [Requested (jobsRequest (example_queue\<lparr>buildJobChan := b\<rparr>) 2 0 [''42''])]\<rparr>))"
proof -
  let ?q = "example_queue\<lparr>buildJobChan := b\<rparr>"
  let ?w = "(example_world (ok_reply ''jobs-42-43'' # rs))\<lparr>ctx_done := d\<rparr>"
  have p: "pools ?w (processors ?q) = example_pool"
    by (simp add: example_world_def)
  have s: "Size_result example_pool = 2"
    by (simp add: example_pool_def)
  have f: "filterJobIDs [''42'', ''43''] [''42''] [] = Inr [43]"
    by (simp add: alreadyRunning_iff ParseUint_def is_digit_def)
  have a1: "\<not> Marshal_fails example_env (fetchRequestPayload (Each_procs (pools ?w (processors ?q))))"
    by (simp add: example_env_def)
  have a2: "\<not> NewRequest_fails example_env ''POST''
           (Url (jobsRequest ?q (Size_result (pools ?w (processors ?q))) 0
                  (fetchRequestPayload (Each_procs (pools ?w (processors ?q))))))"
    by (simp add: example_env_def)
  have a3: "replies ?w = Responded \<lparr> StatusCode = 200, Body = Bytes ''jobs-42-43'' \<rparr> # rs"
    by (simp add: example_world_def ok_reply_def)
  have a4: "decodeJobs example_env (Body \<lparr> StatusCode = 200, Body = Bytes ''jobs-42-43'' \<rparr>)
              = Some (Some [''42'', ''43''])"
    by (simp add: decodeJobs_def example_env_def)
  have t: "trace ?w = []"
    by (simp add: example_world_def)
  have "fetchJobID example_env ?q 0 ?w =
          (Ok 43, Close (?w\<lparr>replies := rs,
                     trace := trace ?w @ [Requested (jobsRequest ?q 2 0 [''42''])]\<rparr>))"
    using fetchJobID_answered [OF a1 a2 a3 a4] unfolding p s example_inflight f by simp
  then show ?thesis
    by (simp add: t)
qed

text \<open>
  The job board offers job 43 and then answers the detail request with a body whose start
  attributes do not decode: one nil job is sent and the attempt ends in
  \<open>httpPollStateSleep\<close>.
\<close>

theorem pollForJobs_nil_job_witness:
  "pollState (pollForJobs example_env (example_queue\<lparr>buildJobChan := Some 0\<rparr>) 0 0 0
      (example_world [ok_reply ''jobs-42-43'', ok_reply ''job-attrs-broken''])) = Some httpPollStateSleep \<and>
   map_option (sends 0 \<circ> trace)
     (pollWorld (pollForJobs example_env (example_queue\<lparr>buildJobChan := Some 0\<rparr>) 0 0 0
        (example_world [ok_reply ''jobs-42-43'', ok_reply ''job-attrs-broken'']))) = Some [None]"
proof -
  let ?q = "example_queue\<lparr>buildJobChan := Some 0\<rparr>"
  let ?w = "example_world [ok_reply ''jobs-42-43'', ok_reply ''job-attrs-broken'']"
  let ?w1 = "Close (?w\<lparr>replies := [ok_reply ''job-attrs-broken''],
               trace := [Requested (jobsRequest ?q 2 0 [''42''])]\<rparr>)"
  have a: "ready_fires ?w 0"
    by (simp add: example_world_def)
  have b: "fetchJobID example_env ?q 0 ?w = (Ok 43, ?w1)"
    using example_fetchJobID_43 [where b = "Some 0" and rs = "[ok_reply ''job-attrs-broken'']"
        and d = "\<lambda>c. False"]
    by (simp add: example_world_def)
  have n: "\<not> NewRequest_fails example_env ''GET'' (Url (jobRequest ?q 0 43))"
    by (simp add: example_env_def)
  have r: "replies ?w1 = Responded \<lparr> StatusCode = 200, Body = Bytes ''job-attrs-broken'' \<rparr> # []"
    by (simp add: Close_def ok_reply_def)
  have p: "parseJob example_env ?q (Bytes ''job-attrs-broken'') = Err UnmarshalStartAttrsFailed"
    by (simp add: parseJob_def example_env_def)
  have c: "fetchJob example_env ?q 0 43 ?w1 =
             (Err UnmarshalStartAttrsFailed,
              Close (?w1\<lparr>replies := [], trace := trace ?w1 @ [Requested (jobRequest ?q 0 43)]\<rparr>))"
    using fetchJob_ok_at_once [OF n r] by (simp add: p)
  have d: "0 < receivers ?w 0"
    by (simp add: example_world_def)
  have t: "sends 0 (trace ?w) = []"
    by (simp add: example_world_def)
  from pollForJobs_nil_job [OF a b c d] obtain w3 where
    "pollForJobs example_env ?q 0 0 0 ?w = Returns (httpPollStateSleep, ?q, w3)"
    "sends 0 (trace w3) = sends 0 (trace ?w) @ [None]"
    by blast
  then show ?thesis
    by (simp add: pollState_def pollWorld_def t)
qed

subsection \<open>Cancellation\<close>

lemma pollForJobs_id_failure:
  assumes "ready_fires w ready" and "fetchJobID E q ctx w = (Err err, w1)"
  shows "pollForJobs E q ctx ready c w = Returns (httpPollStateSleep, q, w1)"
  using assms by (simp add: pollForJobs_def)

lemma pollForJobs_delivered:
  assumes "ready_fires w ready"
    and "fetchJobID E q ctx w = (Ok jobID, w1)"
    and "fetchJob E q ctx jobID w1 = (Ok buildJob, w2)"
    and "send c (Some buildJob) w2 = Some w3"
  shows "pollForJobs E q ctx ready c w =
           (if ctx_done w3 ctx then Returns (httpPollStateBreak, q\<lparr>buildJobChan := None\<rparr>, w3)
            else Returns (httpPollStateSleep, q, w3))"
  using assms by (simp add: pollForJobs_def)

lemma canceled_fetchJobID_failed:
  "fetchJobID example_env (example_queue\<lparr>buildJobChan := Some 0\<rparr>) 0 (canceled_world [Failed]) =
     (Err MakeJobsRequestFailed,
      (canceled_world [])\<lparr>trace := [Requested (jobsRequest (example_queue\<lparr>buildJobChan := Some 0\<rparr>) 2 0 [''42''])]\<rparr>)"
proof -
  have p: "pools (canceled_world rs) r = example_pool" for rs r
    by (simp add: canceled_world_def example_world_def)
  have s: "Size_result example_pool = 2"
    by (simp add: example_pool_def)
  show ?thesis
    by (simp add: fetchJobID_def Let_def p s example_inflight Do_def
        example_env_def example_world_def canceled_world_def)
qed

lemma pollForJobs_detail_failure:
  assumes "ready_fires w ready"
    and "fetchJobID E q ctx w = (Ok jobID, w1)"
    and "fetchJob E q ctx jobID w1 = (Err err, w2)"
  shows "pollForJobs E q ctx ready c w =
           (case send c None w2 of
              None \<Rightarrow> Blocks
            | Some w3 \<Rightarrow> Returns (httpPollStateSleep, q, w3))"
  using assms by (simp add: pollForJobs_def)

lemma canceled_fetchJob_failed:
  assumes "replies w = [Failed, Failed, Failed]"
  shows "fst (fetchJob example_env q 0 43 w) = Err (MakeJobRequestFailed TransportFailed)"
proof -
  have n: "NextBackOffs example_env jobBackOff = [500000000, 750000000]"
    and f: "\<not> NewRequest_fails example_env ''GET'' (Url (jobRequest q 0 43))"
    by (simp_all add: example_env_def)
  show ?thesis
    using assms by (simp add: fetchJob_def n f jobOperation_def Do_def)
qed

text \<open>
  Claim C2. After a delivered job \<open>pollForJobs\<close> looks at the context, clears
  \<open>buildJobChan\<close> and returns \<open>httpPollStateBreak\<close> when it is canceled
  (\<open>pollForJobs_delivered\<close>). The two failure branches return before that: with the
  context canceled and the request for job ids failing, and likewise with the id fetched
  and every request for the job failing, the attempt returns \<open>httpPollStateSleep\<close> and
  \<open>buildJobChan\<close> still holds the channel.
\<close>

theorem pollForJobs_canceled_failure:
  "ctx_done (canceled_world [Failed]) 0 \<and>
   pollState (pollForJobs example_env (example_queue\<lparr>buildJobChan := Some 0\<rparr>) 0 0 0
      (canceled_world [Failed])) = Some httpPollStateSleep \<and>
   map_option buildJobChan
     (pollQueue (pollForJobs example_env (example_queue\<lparr>buildJobChan := Some 0\<rparr>) 0 0 0
        (canceled_world [Failed]))) = Some (Some 0) \<and>
   ctx_done (canceled_world [ok_reply ''jobs-42-43'', Failed, Failed, Failed]) 0 \<and>
   pollState (pollForJobs example_env (example_queue\<lparr>buildJobChan := Some 0\<rparr>) 0 0 0
      (canceled_world [ok_reply ''jobs-42-43'', Failed, Failed, Failed])) = Some httpPollStateSleep \<and>
   map_option buildJobChan
     (pollQueue (pollForJobs example_env (example_queue\<lparr>buildJobChan := Some 0\<rparr>) 0 0 0
        (canceled_world [ok_reply ''jobs-42-43'', Failed, Failed, Failed]))) = Some (Some 0)"
proof -
  let ?q = "example_queue\<lparr>buildJobChan := Some 0\<rparr>"
  let ?w = "canceled_world [ok_reply ''jobs-42-43'', Failed, Failed, Failed]"
  let ?w1 = "Close ((example_world [ok_reply ''jobs-42-43'', Failed, Failed, Failed])
      \<lparr>ctx_done := \<lambda>c. True, replies := [Failed, Failed, Failed],
        trace := [Requested (jobsRequest ?q 2 0 [''42''])]\<rparr>)"
  have r: "ready_fires (canceled_world rs) 0" and d: "ctx_done (canceled_world rs) 0" for rs
    by (simp_all add: canceled_world_def example_world_def)
  have first: "pollForJobs example_env ?q 0 0 0 (canceled_world [Failed]) =
      Returns (httpPollStateSleep, ?q,
        (canceled_world [])\<lparr>trace := [Requested (jobsRequest ?q 2 0 [''42''])]\<rparr>)"
    by (rule pollForJobs_id_failure [OF r canceled_fetchJobID_failed])
  have i: "fetchJobID example_env ?q 0 ?w = (Ok 43, ?w1)"
    unfolding canceled_world_def by (rule example_fetchJobID_43)
  have "replies ?w1 = [Failed, Failed, Failed]"
    by (simp add: Close_def)
  from canceled_fetchJob_failed [OF this, of ?q]
  have j: "fetchJob example_env ?q 0 43 ?w1 =
             (Err (MakeJobRequestFailed TransportFailed), snd (fetchJob example_env ?q 0 43 ?w1))"
    by (metis prod.collapse)
  have "receivers (snd (fetchJob example_env ?q 0 43 ?w1)) 0 = 1"
    by (simp add: fetchJob_receivers Close_def example_world_def)
  then have "\<exists>w3. send 0 None (snd (fetchJob example_env ?q 0 43 ?w1)) = Some w3"
    by (simp add: send_def)
  then obtain w3 where "pollForJobs example_env ?q 0 0 0 ?w = Returns (httpPollStateSleep, ?q, w3)"
    using pollForJobs_detail_failure [OF r i j, of 0] by auto
  with first d show ?thesis
    by (simp add: pollState_def pollQueue_def)
qed

subsection \<open>The fields of the queue\<close>

lemma pollForJobs_frame:
  assumes "pollForJobs E q ctx ready c w = Returns (st, q1, w1)"
  shows "q1 = q \<or> q1 = q\<lparr>buildJobChan := None\<rparr>"
  using assms
  by (auto simp: pollForJobs_def split: if_splits prod.splits result.splits option.splits)

text \<open>
  Claim C9. Whatever operation runs on a queue (\<open>Jobs\<close>, \<open>pollForJobs\<close>, \<open>fetchJobID\<close>,
  \<open>fetchJob\<close>, \<open>Name\<close>, \<open>Cleanup\<close>), the queue it leaves behind differs from the one it
  started on in \<open>buildJobChan\<close> at most: the job-board URL, site, provider name, queue
  name, worker id, poll interval and the defaults are unchanged.
\<close>

theorem queueAfter_frame:
  assumes "queueAfter E op q w = Returns q'"
  shows "q' = q\<lparr>buildJobChan := buildJobChan q'\<rparr> \<and>
         processors q' = processors q \<and> jobBoardURL q' = jobBoardURL q \<and> site q' = site q \<and>
         providerName q' = providerName q \<and> queue q' = queue q \<and> workerID q' = workerID q \<and>
         pollInterval q' = pollInterval q \<and> DefaultLanguage q' = DefaultLanguage q \<and>
         DefaultDist q' = DefaultDist q \<and> DefaultGroup q' = DefaultGroup q \<and>
         DefaultOS q' = DefaultOS q"
proof -
  have "q' = q\<lparr>buildJobChan := buildJobChan q'\<rparr>"
  proof (cases op)
    case (OpJobs ctx ready)
    with assms show ?thesis
      by (auto simp: Jobs_def split: option.splits)
  next
    case (OpPollForJobs ctx ready c)
    with assms obtain st w1 where "pollForJobs E q ctx ready c w = Returns (st, q', w1)"
      by (auto split: outcome.splits)
    from pollForJobs_frame [OF this] show ?thesis
      by auto
  next
    case (OpFetchJobID ctx)
    with assms show ?thesis
      by (auto split: result.splits)
  next
    case (OpFetchJob ctx jobID)
    with assms show ?thesis
      by (auto split: result.splits)
  next
    case OpName
    with assms show ?thesis by simp
  next
    case OpCleanup
    with assms show ?thesis by simp
  qed
  then show ?thesis
    by (metis HTTPJobQueue.select_convs HTTPJobQueue.surjective HTTPJobQueue.update_convs(7))
qed

text \<open>
  A poll attempt that delivers a job under a canceled context: \<open>buildJobChan\<close> is cleared
  and the configuration is as \<open>NewHTTPJobQueue\<close> set it.
\<close>

theorem queueAfter_frame_witness:
  "\<exists>q'. queueAfter example_env (OpPollForJobs 0 0 0) (example_queue\<lparr>buildJobChan := Some 0\<rparr>)
           (canceled_world [ok_reply ''jobs-42-43'', ok_reply ''job-premium'']) = Returns q' \<and>
         buildJobChan q' = None \<and> queue q' = ''builds.gce'' \<and> site q' = ''site-a'' \<and>
         workerID q' = ''worker-1'' \<and> providerName q' = ''gce'' \<and> pollInterval q' = Second"
proof -
  let ?q = "example_queue\<lparr>buildJobChan := Some 0\<rparr>"
  let ?w = "canceled_world [ok_reply ''jobs-42-43'', ok_reply ''job-premium'']"
  let ?w1 = "Close ((example_world [ok_reply ''jobs-42-43'', ok_reply ''job-premium''])
      \<lparr>ctx_done := \<lambda>c. True, replies := [ok_reply ''job-premium''],
        trace := [Requested (jobsRequest ?q 2 0 [''42''])]\<rparr>)"
  let ?w2 = "Close (?w1\<lparr>replies := [], trace := trace ?w1 @ [Requested (jobRequest ?q 0 43)]\<rparr>)"
  have r: "ready_fires ?w 0"
    by (simp add: canceled_world_def example_world_def)
  have i: "fetchJobID example_env ?q 0 ?w = (Ok 43, ?w1)"
    unfolding canceled_world_def by (rule example_fetchJobID_43)
  have n: "\<not> NewRequest_fails example_env ''GET'' (Url (jobRequest ?q 0 43))"
    by (simp add: example_env_def)
  have rp: "replies ?w1 = Responded \<lparr> StatusCode = 200, Body = Bytes ''job-premium'' \<rparr> # []"
    by (simp add: Close_def ok_reply_def)
  obtain job where p: "parseJob example_env ?q (Bytes ''job-premium'') = Ok job"
    by (simp add: parseJob_def example_env_def example_attrs_def finalStartAttributes_def)
  have j: "fetchJob example_env ?q 0 43 ?w1 = (Ok job, ?w2)"
    using fetchJob_ok_at_once [OF n rp] by (simp add: p)
  have "receivers ?w2 0 = 1"
    by (simp add: Close_def example_world_def)
  then obtain w3 where s: "send 0 (Some job) ?w2 = Some w3" and d: "ctx_done w3 0"
    by (simp add: send_def Close_def)
  have "pollForJobs example_env ?q 0 0 0 ?w =
          Returns (httpPollStateBreak, ?q\<lparr>buildJobChan := None\<rparr>, w3)"
    using pollForJobs_delivered [OF r i j s] d by simp
  then have qa: "queueAfter example_env (OpPollForJobs 0 0 0) ?q ?w = Returns (?q\<lparr>buildJobChan := None\<rparr>)"
    by simp
  from queueAfter_frame [OF qa] qa show ?thesis
    by (simp add: example_queue_def NewHTTPJobQueue_def)
qed

subsection \<open>Jobs\<close>

text \<open>
  Claim C3. On a queue without a channel, \<open>Jobs\<close> makes a new channel, stores it and
  starts exactly one poll loop. A later call, in whatever state the queue and its
  surroundings are by then as long as the stored channel is still the same, returns that
  same channel and changes nothing, so no second loop is started. \<open>Jobs\<close> never returns
  an error.
\<close>

theorem Jobs_idempotent:
  assumes "buildJobChan q = None"
    and "Jobs q ctx ready w = ((c, e), q1, w1)"
    and "buildJobChan q2 = buildJobChan q1"
    and "Jobs q2 ctx' ready' w2 = ((c', e'), q3, w3)"
  shows "c = next_chan w \<and> next_chan w1 = Suc c \<and> buildJobChan q1 = Some c \<and>
         loops w1 = loops w @ [(ctx, ready, c)] \<and> e = None \<and>
         c' = c \<and> e' = None \<and> q3 = q2 \<and> w3 = w2 \<and>
         (\<forall>q0 ctx0 ready0 w0. snd (fst (Jobs q0 ctx0 ready0 w0)) = None)"
proof -
  from assms(1,2) have first: "c = next_chan w" "next_chan w1 = Suc c" "buildJobChan q1 = Some c"
    "loops w1 = loops w @ [(ctx, ready, c)]" "e = None"
    by (auto simp: Jobs_def)
  from assms(3,4) first(3) have second: "c' = c" "e' = None" "q3 = q2" "w3 = w2"
    by (auto simp: Jobs_def)
  have "\<forall>q0 ctx0 ready0 w0. snd (fst (Jobs q0 ctx0 ready0 w0)) = None"
    by (simp add: Jobs_def split: option.splits)
  with first second show ?thesis
    by blast
qed

text \<open>Two calls on a fresh queue, with different contexts: one channel, one loop.\<close>

theorem Jobs_idempotent_witness:
  "fst (Jobs example_queue 0 0 (example_world [])) = (0, None) \<and>
   loops (snd (snd (Jobs example_queue 0 0 (example_world [])))) = [(0, 0, 0)] \<and>
   fst (Jobs (fst (snd (Jobs example_queue 0 0 (example_world [])))) 1 1
          (snd (snd (Jobs example_queue 0 0 (example_world []))))) = (0, None) \<and>
   loops (snd (snd (Jobs (fst (snd (Jobs example_queue 0 0 (example_world [])))) 1 1
          (snd (snd (Jobs example_queue 0 0 (example_world []))))))) = [(0, 0, 0)]"
proof -
  let ?q1 = "fst (snd (Jobs example_queue 0 0 (example_world [])))"
  let ?w1 = "snd (snd (Jobs example_queue 0 0 (example_world [])))"
  let ?c = "fst (fst (Jobs example_queue 0 0 (example_world [])))"
  let ?e = "snd (fst (Jobs example_queue 0 0 (example_world [])))"
  let ?c' = "fst (fst (Jobs ?q1 1 1 ?w1))"
  let ?e' = "snd (fst (Jobs ?q1 1 1 ?w1))"
  have a: "buildJobChan example_queue = None"
    by (simp add: example_queue_def NewHTTPJobQueue_def)
  have b: "Jobs example_queue 0 0 (example_world []) = ((?c, ?e), ?q1, ?w1)"
    by simp
  have c: "buildJobChan ?q1 = buildJobChan ?q1"
    by simp
  have d: "Jobs ?q1 1 1 ?w1 = ((?c', ?e'), fst (snd (Jobs ?q1 1 1 ?w1)), snd (snd (Jobs ?q1 1 1 ?w1)))"
    by simp
  have n: "next_chan (example_world []) = 0" and l: "loops (example_world []) = []"
    by (simp_all add: example_world_def)
  from Jobs_idempotent [OF a b c d] show ?thesis
    by (simp add: n l prod_eq_iff)
qed

end
